theory Spec2Isabelle
  imports Main "HOL-Library.AList"
begin

section \<open>Time, durations and errors\<close>

text \<open>
  An instant (Go's \<open>time.Time\<close>) is an integer: nanoseconds since the Unix epoch, read in
  UTC, which is the location of every time the program handles (times parsed from WHOIS
  answers and times read back from the store). A duration (Go's \<open>time.Duration\<close>) is a
  64-bit signed count of nanoseconds, kept as an integer; the saturation of
  \<open>Time.Sub\<close> and the wrap-around of duration arithmetic are written out.
\<close>

type_synonym time = int
type_synonym duration = int

definition Second :: duration where "Second = 1000000000"
definition Hour :: duration where "Hour = 3600000000000"
definition maxDuration :: duration where "maxDuration = 2 ^ 63 - 1"
definition minDuration :: duration where "minDuration = - (2 ^ 63)"

definition wrap64 :: "int \<Rightarrow> int" where
  "wrap64 x = (x + 2 ^ 63) mod 2 ^ 64 - 2 ^ 63"

definition time_Sub :: "time \<Rightarrow> time \<Rightarrow> duration" where
  "time_Sub t u =
     (let d = t - u
      in if d > maxDuration then maxDuration
         else if d < minDuration then minDuration
         else d)"

definition time_Until :: "time \<Rightarrow> time \<Rightarrow> duration" where
  "time_Until now t = time_Sub t now"

text \<open>
  Errors are values. \<open>ErrNoRows\<close> is the sentinel \<open>sql.ErrNoRows\<close> the code compares
  against, \<open>New\<close> an error made from a message, and \<open>Wrap s e\<close> an error with message
  \<open>s\<close> that wraps \<open>e\<close> (the verb \<open>%w\<close> of \<open>fmt.Errorf\<close>).
\<close>

datatype error = ErrNoRows | New string | Wrap string error

fun Error :: "error \<Rightarrow> string" where
  "Error ErrNoRows = ''sql: no rows in result set''"
| "Error (New s) = s"
| "Error (Wrap s e) = s"

fun Unwrap :: "error \<Rightarrow> error option" where
  "Unwrap (Wrap s e) = Some e"
| "Unwrap e = None"

definition Errorf_w :: "string \<Rightarrow> error \<Rightarrow> error" where
  "Errorf_w prefix err = Wrap (prefix @ Error err) err"

section \<open>Library functions the code calls\<close>

subsection \<open>Integers and strings\<close>

text \<open>Go's integer division truncates towards zero; the remainder has the dividend's sign.\<close>

definition quo :: "int \<Rightarrow> int \<Rightarrow> int" where
  "quo a b = sgn a * sgn b * (\<bar>a\<bar> div \<bar>b\<bar>)"

definition rem :: "int \<Rightarrow> int \<Rightarrow> int" where
  "rem a b = sgn a * (\<bar>a\<bar> mod \<bar>b\<bar>)"

function digits :: "int \<Rightarrow> string" where
  "digits n = (if n < 10 then [char_of (48 + n)] else digits (n div 10) @ [char_of (48 + n mod 10)])"
  by pat_completeness auto
termination
  by (relation "measure nat") auto

declare digits.simps [simp del]

text \<open>The verb \<open>%d\<close>: a decimal numeral, with a minus sign for a negative number.\<close>

definition Itoa :: "int \<Rightarrow> string" where
  "Itoa i = (if i < 0 then CHR ''-'' # digits (- i) else digits i)"

text \<open>A number padded with zeros to a width, as the time formatter writes years, months and days.\<close>

definition appendInt :: "int \<Rightarrow> nat \<Rightarrow> string" where
  "appendInt x width =
     (let u = digits \<bar>x\<bar>;
          padded = replicate (width - length u) (CHR ''0'') @ u
      in if x < 0 then CHR ''-'' # padded else padded)"

definition HasPrefix :: "string \<Rightarrow> string \<Rightarrow> bool" where
  "HasPrefix s prefix = (take (length prefix) s = prefix)"

text \<open>\<open>strings.Split\<close> of a string at every occurrence of one separator byte.\<close>

fun Split :: "string \<Rightarrow> char \<Rightarrow> string list" where
  "Split [] sep = [[]]"
| "Split (c # cs) sep =
     (if c = sep then [] # Split cs sep
      else (case Split cs sep of [] \<Rightarrow> [[c]] | p # ps \<Rightarrow> (c # p) # ps))"

subsection \<open>The calendar date of an instant\<close>

text \<open>
  \<open>Time.Format\<close> with the layout \<open>2006-01-02\<close>: the year, the month and the day of the
  instant in the proleptic Gregorian calendar (in UTC), the year on at least four digits.
\<close>

definition civil :: "int \<Rightarrow> int \<times> int \<times> int" where
  "civil z =
     (let z1 = z + 719468;
          era = z1 div 146097;
          doe = z1 mod 146097;
          yoe = (doe - doe div 1460 + doe div 36524 - doe div 146096) div 365;
          doy = doe - (365 * yoe + yoe div 4 - yoe div 100);
          mp = (5 * doy + 2) div 153;
          d = doy - (153 * mp + 2) div 5 + 1;
          m = (if mp < 10 then mp + 3 else mp - 9);
          y = yoe + era * 400
      in (if m \<le> 2 then y + 1 else y, m, d))"

definition Format_2006_01_02 :: "time \<Rightarrow> string" where
  "Format_2006_01_02 t =
     (case civil (t div (24 * Hour)) of
        (y, m, d) \<Rightarrow> appendInt y 4 @ ''-'' @ appendInt m 2 @ ''-'' @ appendInt d 2)"

subsection \<open>Double-precision arithmetic\<close>

text \<open>
  The day counts of an alert go through \<open>Duration.Hours\<close>, a \<open>float64\<close>. A finite double
  is a pair \<open>(m, e)\<close> standing for \<open>m * 2 ^ e\<close>; \<open>round53 p q s\<close> is the double nearest to
  \<open>p / q * 2 ^ s\<close> (53 significant bits, ties to even), for \<open>q > 0\<close>. The values met here
  are far from the subnormal and the overflow range.
\<close>

type_synonym float64 = "int \<times> int"

function bitlen :: "int \<Rightarrow> int" where
  "bitlen n = (if n \<le> 0 then 0 else 1 + bitlen (n div 2))"
  by pat_completeness auto
termination
  by (relation "measure nat") auto

declare bitlen.simps [simp del]

definition round53 :: "int \<Rightarrow> int \<Rightarrow> int \<Rightarrow> float64" where
  "round53 p q s =
     (if p = 0 then (0, 0)
      else
        let a = \<bar>p\<bar>;
            L = bitlen a - bitlen q;
            fl = (if (if 0 \<le> L then q * 2 ^ nat L \<le> a else q \<le> a * 2 ^ nat (- L))
                  then L else L - 1);
            e = fl - 52;
            num = (if 0 \<le> e then a else a * 2 ^ nat (- e));
            den = (if 0 \<le> e then q * 2 ^ nat e else q);
            n = num div den;
            r = num mod den;
            m = (if 2 * r < den then n else if den < 2 * r then n + 1
                 else if even n then n else n + 1)
        in (sgn p * m, e + s))"

definition f64_of_int :: "int \<Rightarrow> float64" where
  "f64_of_int n = round53 n 1 0"

definition f64_div :: "float64 \<Rightarrow> float64 \<Rightarrow> float64" where
  "f64_div x y =
     (case (x, y) of ((m1, e1), (m2, e2)) \<Rightarrow> round53 (m1 * sgn m2) \<bar>m2\<bar> (e1 - e2))"

definition f64_add :: "float64 \<Rightarrow> float64 \<Rightarrow> float64" where
  "f64_add x y =
     (case (x, y) of ((m1, e1), (m2, e2)) \<Rightarrow>
        let e = min e1 e2
        in round53 (m1 * 2 ^ nat (e1 - e) + m2 * 2 ^ nat (e2 - e)) 1 e)"

text \<open>The conversion \<open>int(x)\<close> of a double drops the fraction.\<close>

definition f64_to_int :: "float64 \<Rightarrow> int" where
  "f64_to_int x =
     (case x of (m, e) \<Rightarrow> if 0 \<le> e then m * 2 ^ nat e else quo m (2 ^ nat (- e)))"

definition Hours :: "duration \<Rightarrow> float64" where
  "Hours d =
     (let hour = quo d Hour;
          nsec = rem d Hour
      in f64_add (f64_of_int hour)
           (f64_div (f64_of_int nsec) (f64_of_int (60 * 60 * 1000000000))))"

section \<open>Data model\<close>

record Domain =
  ID :: string
  Name :: string
  ExpirationDate :: time
  Nameservers :: "string list"
  Registrant :: string
  Registrar :: string
  LastChecked :: time
  NextCheck :: time
  CreatedAt :: time
  UpdatedAt :: time

record DomainInfo =
  InfoDomainName :: string
  InfoExpirationDate :: time
  InfoNameservers :: "string list"
  InfoRegistrant :: string
  InfoRegistrar :: string
  InfoCreatedDate :: time
  InfoUpdatedDate :: time

record Config =
  ConfigID :: int
  MonitoringInterval :: int
  AlertThresholds :: "duration list"
  GoogleChatWebhook :: string
  RetentionPeriod :: int
  ConfigUpdatedAt :: time

definition GetMonitoringInterval :: "Config \<Rightarrow> duration" where
  "GetMonitoringInterval c = MonitoringInterval c"

definition SetMonitoringInterval :: "duration \<Rightarrow> Config \<Rightarrow> Config" where
  "SetMonitoringInterval d c = c\<lparr>MonitoringInterval := d\<rparr>"

definition GetRetentionPeriod :: "Config \<Rightarrow> duration" where
  "GetRetentionPeriod c = RetentionPeriod c"

definition SetRetentionPeriod :: "duration \<Rightarrow> Config \<Rightarrow> Config" where
  "SetRetentionPeriod d c = c\<lparr>RetentionPeriod := d\<rparr>"

definition GetAlertThresholds :: "Config \<Rightarrow> duration list" where
  "GetAlertThresholds c = AlertThresholds c"

definition SetAlertThresholds :: "duration list \<Rightarrow> Config \<Rightarrow> Config" where
  "SetAlertThresholds thresholds c = c\<lparr>AlertThresholds := thresholds\<rparr>"

record Alert =
  AlertID :: string
  DomainID :: string
  DomainName :: string
  Threshold :: int
  AlertExpirationDate :: time
  SentAt :: time
  Success :: bool
  ErrorMessage :: string

definition GetThreshold :: "Alert \<Rightarrow> duration" where
  "GetThreshold a = Threshold a"

definition SetThreshold :: "duration \<Rightarrow> Alert \<Rightarrow> Alert" where
  "SetThreshold d a = a\<lparr>Threshold := d\<rparr>"

definition DaysUntilExpiration :: "Alert \<Rightarrow> int" where
  "DaysUntilExpiration a =
     (let duration = time_Sub (AlertExpirationDate a) (SentAt a)
      in f64_to_int (f64_div (Hours duration) (f64_of_int 24)))"

section \<open>The environment and the state\<close>

text \<open>
  Everything outside the program is an oracle \<open>env\<close>. External calls are numbered in the
  order the program makes them (\<open>ops\<close> counts them) and the oracle answers the \<open>n\<close>-th
  call: whether a round trip to the store fails and with which driver error (constraint
  violations included), the identifier \<open>uuid.New\<close> draws, how long a WHOIS lookup runs and
  what it returns, what the webhook answers, and which ready branch a \<open>select\<close> takes. The
  parser of WHOIS answers, the rendering of a duration by \<open>%v\<close>, the scan of an integer
  by \<open>fmt.Sscanf\<close> with the verb \<open>%d\<close> (\<open>None\<close> when it reports an error and stores
  nothing) and \<open>strings.TrimSpace\<close> are given functions.

  The state \<open>world\<close> holds the three tables of the store, the wall clock, the scheduler's
  timers, and a trace of lookups, sleeps and webhook posts. The clock moves when the
  program sleeps or waits for a lookup; statements between two such points run at one
  instant.
\<close>

datatype event =
  Whois string
  | Sleep duration
  | Post string "(string \<times> string) list"

record env =
  db_fault :: "nat \<Rightarrow> error option"
  uuid_New :: "nat \<Rightarrow> string"
  whois_Whois :: "nat \<Rightarrow> string \<Rightarrow> nat \<times> (error + string)"
  ParseWHOISResponse :: "string \<Rightarrow> error + DomainInfo"
  http_Post :: "nat \<Rightarrow> string \<Rightarrow> (string \<times> string) list \<Rightarrow> error + int"
  select_done :: "nat \<Rightarrow> bool"
  Duration_String :: "duration \<Rightarrow> string"
  Sscanf_d :: "string \<Rightarrow> int option"
  TrimSpace :: "string \<Rightarrow> string"

record Timer =
  timer_domain :: string
  timer_delay :: duration
  timer_set_at :: time
  timer_active :: bool

record world =
  clock :: time
  ops :: nat
  tbl_domains :: "Domain list"
  tbl_config :: "Config option"
  tbl_alerts :: "Alert list"
  timers :: "Timer list"
  scheduledDomains :: "(string \<times> nat) list"
  cancelled :: bool
  trace :: "event list"

definition time_Sleep :: "duration \<Rightarrow> world \<Rightarrow> world" where
  "time_Sleep d w = w\<lparr>clock := clock w + max 0 d, trace := trace w @ [Sleep d]\<rparr>"

subsection \<open>Round trips to the store\<close>

definition db_call :: "env \<Rightarrow> world \<Rightarrow> error option \<times> world" where
  "db_call env w = (db_fault env (ops w), w\<lparr>ops := Suc (ops w)\<rparr>)"

text \<open>\<open>db.Get\<close>: one row into a destination, \<open>sql.ErrNoRows\<close> when the query selects none.\<close>

definition db_Get :: "env \<Rightarrow> 'a option \<Rightarrow> world \<Rightarrow> (error + 'a) \<times> world" where
  "db_Get env row w =
     (case db_call env w of
        (Some err, w') \<Rightarrow> (Inl err, w')
      | (None, w') \<Rightarrow> (case row of None \<Rightarrow> (Inl ErrNoRows, w') | Some r \<Rightarrow> (Inr r, w')))"

text \<open>\<open>db.Exec\<close>: a statement that fails and changes nothing, or takes effect.\<close>

definition db_Exec :: "env \<Rightarrow> (world \<Rightarrow> world) \<Rightarrow> world \<Rightarrow> error option \<times> world" where
  "db_Exec env stmt w =
     (case db_call env w of
        (Some err, w') \<Rightarrow> (Some err, w')
      | (None, w') \<Rightarrow> (None, stmt w'))"

section \<open>Repositories\<close>

subsection \<open>Domains\<close>

definition DomainRepository_GetByID :: "env \<Rightarrow> string \<Rightarrow> world \<Rightarrow> (error + Domain) \<times> world" where
  "DomainRepository_GetByID env domainID w =
     (case db_Get env (find (\<lambda>r. ID r = domainID) (tbl_domains w)) w of
        (Inl err, w') \<Rightarrow>
          if err = ErrNoRows then (Inl (New (''domain not found: '' @ domainID)), w')
          else (Inl (Errorf_w ''failed to get domain: '' err), w')
      | (Inr d, w') \<Rightarrow> (Inr d, w'))"

definition update_row :: "Domain \<Rightarrow> Domain \<Rightarrow> Domain" where
  "update_row d r =
     (if ID r = ID d
      then r\<lparr>Name := Name d, ExpirationDate := ExpirationDate d, Nameservers := Nameservers d,
             Registrant := Registrant d, Registrar := Registrar d, LastChecked := LastChecked d,
             NextCheck := NextCheck d, UpdatedAt := UpdatedAt d\<rparr>
      else r)"

definition DomainRepository_Update :: "env \<Rightarrow> Domain \<Rightarrow> world \<Rightarrow> error option \<times> Domain \<times> world" where
  "DomainRepository_Update env d0 w =
     (let d = d0\<lparr>UpdatedAt := clock w\<rparr>;
          rows = length (filter (\<lambda>r. ID r = ID d) (tbl_domains w))
      in case db_Exec env (\<lambda>w. w\<lparr>tbl_domains := map (update_row d) (tbl_domains w)\<rparr>) w of
           (Some err, w1) \<Rightarrow> (Some (Errorf_w ''failed to update domain: '' err), d, w1)
         | (None, w1) \<Rightarrow>
             (case db_call env w1 of
                (Some err, w2) \<Rightarrow> (Some (Errorf_w ''failed to get rows affected: '' err), d, w2)
              | (None, w2) \<Rightarrow>
                  if rows = 0 then (Some (New (''domain not found: '' @ ID d)), d, w2)
                  else (None, d, w2)))"

definition DomainRepository_DeleteOlderThan :: "env \<Rightarrow> time \<Rightarrow> world \<Rightarrow> error option \<times> world" where
  "DomainRepository_DeleteOlderThan env cutoff w =
     (case db_Exec env
             (\<lambda>w. w\<lparr>tbl_domains :=
                filter (\<lambda>r. \<not> (CreatedAt r < cutoff \<and> ID r \<notin> set (map ID (tbl_domains w))))
                  (tbl_domains w)\<rparr>) w of
        (Some err, w') \<Rightarrow> (Some (Errorf_w ''failed to delete old domains: '' err), w')
      | (None, w') \<Rightarrow> (None, w'))"

subsection \<open>Configuration\<close>

definition createDefaultConfig :: "world \<Rightarrow> Config" where
  "createDefaultConfig w =
     SetAlertThresholds [90 * 24 * Hour, 60 * 24 * Hour, 30 * 24 * Hour, 7 * 24 * Hour]
       (SetRetentionPeriod (90 * 24 * Hour)
         (SetMonitoringInterval (24 * Hour)
           \<lparr>ConfigID = 1, MonitoringInterval = 0, AlertThresholds = [], GoogleChatWebhook = [],
            RetentionPeriod = 0, ConfigUpdatedAt = clock w\<rparr>))"

text \<open>
  The table holds at most the row with id 1 (its primary key): an insert while the row is
  there fails on the key.
\<close>

definition ConfigRepository_create :: "env \<Rightarrow> Config \<Rightarrow> world \<Rightarrow> error option \<times> Config \<times> world" where
  "ConfigRepository_create env config0 w =
     (let config1 = config0\<lparr>ConfigID := 1, ConfigUpdatedAt := clock w\<rparr>
      in case db_call env w of
           (Some err, w') \<Rightarrow> (Some (Errorf_w ''failed to create config: '' err), config1, w')
         | (None, w') \<Rightarrow>
             (case tbl_config w' of
                Some row \<Rightarrow>
                  (Some (Errorf_w ''failed to create config: ''
                           (New ''UNIQUE constraint failed: config.id'')), config1, w')
              | None \<Rightarrow> (None, config1, w'\<lparr>tbl_config := Some config1\<rparr>)))"

definition ConfigRepository_Get :: "env \<Rightarrow> world \<Rightarrow> (error + Config) \<times> world" where
  "ConfigRepository_Get env w =
     (case db_Get env (tbl_config w) w of
        (Inl err, w1) \<Rightarrow>
          if err = ErrNoRows then
            (case ConfigRepository_create env (createDefaultConfig w1) w1 of
               (Some err, defaultConfig, w2) \<Rightarrow>
                 (Inl (Errorf_w ''failed to create default config: '' err), w2)
             | (None, defaultConfig, w2) \<Rightarrow> (Inr defaultConfig, w2))
          else (Inl (Errorf_w ''failed to get config: '' err), w1)
      | (Inr c, w1) \<Rightarrow> (Inr c, w1))"

definition ConfigRepository_Update :: "env \<Rightarrow> Config \<Rightarrow> world \<Rightarrow> error option \<times> world" where
  "ConfigRepository_Update env config0 w =
     (let config1 = config0\<lparr>ConfigID := 1, ConfigUpdatedAt := clock w\<rparr>;
          rows = (case tbl_config w of None \<Rightarrow> 0 | Some row \<Rightarrow> (1::nat))
      in case db_Exec env
                (\<lambda>w. w\<lparr>tbl_config :=
                   map_option
                     (\<lambda>row. row\<lparr>MonitoringInterval := MonitoringInterval config1,
                                AlertThresholds := AlertThresholds config1,
                                GoogleChatWebhook := GoogleChatWebhook config1,
                                RetentionPeriod := RetentionPeriod config1,
                                ConfigUpdatedAt := ConfigUpdatedAt config1\<rparr>)
                     (tbl_config w)\<rparr>) w of
           (Some err, w1) \<Rightarrow> (Some (Errorf_w ''failed to update config: '' err), w1)
         | (None, w1) \<Rightarrow>
             (case db_call env w1 of
                (Some err, w2) \<Rightarrow> (Some (Errorf_w ''failed to get rows affected: '' err), w2)
              | (None, w2) \<Rightarrow>
                  if rows = 0 then
                    (case ConfigRepository_create env config1 w2 of (r, c, w3) \<Rightarrow> (r, w3))
                  else (None, w2)))"

subsection \<open>Alerts\<close>

definition AlertRepository_Create :: "env \<Rightarrow> Alert \<Rightarrow> world \<Rightarrow> error option \<times> world" where
  "AlertRepository_Create env alert0 w =
     (let (alert, w0) =
            (if AlertID alert0 = []
             then (alert0\<lparr>AlertID := uuid_New env (ops w)\<rparr>, w\<lparr>ops := Suc (ops w)\<rparr>)
             else (alert0, w))
      in case db_Exec env (\<lambda>w. w\<lparr>tbl_alerts := tbl_alerts w @ [alert]\<rparr>) w0 of
           (Some err, w1) \<Rightarrow> (Some (Errorf_w ''failed to create alert: '' err), w1)
         | (None, w1) \<Rightarrow> (None, w1))"

definition HasAlertBeenSent :: "env \<Rightarrow> string \<Rightarrow> duration \<Rightarrow> world \<Rightarrow> (error + bool) \<times> world" where
  "HasAlertBeenSent env domainID threshold w =
     (case db_Get env
             (Some (length (filter (\<lambda>a. DomainID a = domainID \<and> Threshold a = threshold)
                              (tbl_alerts w)))) w of
        (Inl err, w') \<Rightarrow>
          if err = ErrNoRows then (Inr False, w')
          else (Inl (Errorf_w ''failed to check if alert was sent: '' err), w')
      | (Inr count, w') \<Rightarrow> (Inr (count > 0), w'))"

section \<open>The alert service\<close>

text \<open>
  The message of an alert. The first line of the format string is kept byte for byte as
  the source file has it: ten bytes (the UTF-8 encodings of U+00F0, U+0178, U+201D and
  U+201D), a space and the title.
\<close>

definition FormatAlertMessage :: "Alert \<Rightarrow> string" where
  "FormatAlertMessage alert =
     (let daysRemaining = DaysUntilExpiration alert;
          thresholdDays = f64_to_int (f64_div (Hours (GetThreshold alert)) (f64_of_int 24))
      in [CHR 0xC3, CHR 0xB0, CHR 0xC5, CHR 0xB8, CHR 0xE2, CHR 0x80, CHR 0x9D,
          CHR 0xE2, CHR 0x80, CHR 0x9D]
         @ '' Domain Expiration Alert'' @ [CHR 0x0A, CHR 0x0A]
         @ ''Domain: '' @ DomainName alert @ [CHR 0x0A]
         @ ''Expiration Date: '' @ Format_2006_01_02 (AlertExpirationDate alert) @ [CHR 0x0A]
         @ ''Days Remaining: '' @ Itoa daysRemaining @ [CHR 0x0A]
         @ ''Alert Threshold: '' @ Itoa thresholdDays @ '' days'' @ [CHR 0x0A, CHR 0x0A]
         @ ''Please renew this domain to avoid service disruption.'')"

text \<open>
  One post to the webhook. The body is the JSON object with the single member \<open>text\<close>,
  kept here as the list of its members; its serialisation cannot fail.
\<close>

definition sendToWebhook :: "env \<Rightarrow> string \<Rightarrow> string \<Rightarrow> world \<Rightarrow> error option \<times> world" where
  "sendToWebhook env webhookURL message w =
     (let payload = [(''text'', message)];
          w' = w\<lparr>ops := Suc (ops w), trace := trace w @ [Post webhookURL payload]\<rparr>
      in case http_Post env (ops w) webhookURL payload of
           Inl err \<Rightarrow> (Some (Errorf_w ''failed to send webhook: '' err), w')
         | Inr StatusCode \<Rightarrow>
             if StatusCode < 200 \<or> StatusCode \<ge> 300
             then (Some (New (''webhook returned status '' @ Itoa StatusCode)), w')
             else (None, w'))"

function send_attempts :: "env \<Rightarrow> string \<Rightarrow> string \<Rightarrow> int \<Rightarrow> duration \<Rightarrow> error option \<Rightarrow> world \<Rightarrow> error option \<times> world" where
  "send_attempts env webhookURL message attempt backoff lastErr w =
     (if attempt < 3 then
        (case sendToWebhook env webhookURL message w of
           (None, w1) \<Rightarrow> (None, w1)
         | (Some err, w1) \<Rightarrow>
             if attempt < 2
             then send_attempts env webhookURL message (attempt + 1) (wrap64 (backoff * 2))
                    (Some err) (time_Sleep backoff w1)
             else send_attempts env webhookURL message (attempt + 1) backoff (Some err) w1)
      else
        (case lastErr of
           Some err \<Rightarrow> (Some (Errorf_w ''failed after 3 attempts: '' err), w)
         | None \<Rightarrow> (Some (New ''failed after 3 attempts: %!w(<nil>)''), w)))"
  by pat_completeness auto
termination
  by (relation "measure (\<lambda>(env, webhookURL, message, attempt, backoff, lastErr, w). nat (3 - attempt))")
     auto

declare send_attempts.simps [simp del]

definition SendAlert :: "env \<Rightarrow> Alert \<Rightarrow> string \<Rightarrow> world \<Rightarrow> error option \<times> world" where
  "SendAlert env alert webhookURL w =
     (if webhookURL = [] then (Some (New ''no webhook URL configured''), w)
      else send_attempts env webhookURL (FormatAlertMessage alert) 0 Second None w)"

fun evaluate_thresholds :: "env \<Rightarrow> Domain \<Rightarrow> Config \<Rightarrow> duration \<Rightarrow> duration list \<Rightarrow> world \<Rightarrow> error option \<times> world" where
  "evaluate_thresholds env d config timeUntilExpiration [] w = (None, w)"
| "evaluate_thresholds env d config timeUntilExpiration (threshold # thresholds) w =
     (if timeUntilExpiration \<le> threshold \<and> timeUntilExpiration > 0 then
        (case HasAlertBeenSent env (ID d) threshold w of
           (Inl err, w1) \<Rightarrow> (Some (Errorf_w ''failed to check if alert was sent: '' err), w1)
         | (Inr alreadySent, w1) \<Rightarrow>
             if \<not> alreadySent then
               (let alert = SetThreshold threshold
                              \<lparr>AlertID = [], DomainID = ID d, DomainName = Name d, Threshold = 0,
                               AlertExpirationDate = ExpirationDate d, SentAt = clock w1,
                               Success = False, ErrorMessage = []\<rparr>
                in case SendAlert env alert (GoogleChatWebhook config) w1 of
                     (sendErr, w2) \<Rightarrow>
                       (let alert' =
                              (case sendErr of
                                 Some err \<Rightarrow> alert\<lparr>Success := False, ErrorMessage := Error err\<rparr>
                               | None \<Rightarrow> alert\<lparr>Success := True\<rparr>)
                        in case AlertRepository_Create env alert' w2 of
                             (Some err, w3) \<Rightarrow> (Some (Errorf_w ''failed to save alert: '' err), w3)
                           | (None, w3) \<Rightarrow>
                               evaluate_thresholds env d config timeUntilExpiration thresholds w3))
             else evaluate_thresholds env d config timeUntilExpiration thresholds w1)
      else evaluate_thresholds env d config timeUntilExpiration thresholds w)"

definition EvaluateAlerts :: "env \<Rightarrow> Domain \<Rightarrow> world \<Rightarrow> error option \<times> world" where
  "EvaluateAlerts env d w =
     (case ConfigRepository_Get env w of
        (Inl err, w1) \<Rightarrow> (Some (Errorf_w ''failed to get config: '' err), w1)
      | (Inr config, w1) \<Rightarrow>
          evaluate_thresholds env d config (time_Until (clock w1) (ExpirationDate d))
            (GetAlertThresholds config) w1)"

section \<open>The WHOIS service\<close>

record Service =
  timeout :: duration
  maxRetries :: int

definition NewService :: Service where
  "NewService = \<lparr>timeout = 30 * Second, maxRetries = 3\<rparr>"

text \<open>
  One lookup: the raw answer of the WHOIS client, then its parse. The oracle also says
  how long the lookup runs.
\<close>

definition query :: "env \<Rightarrow> string \<Rightarrow> world \<Rightarrow> (nat \<times> (error + DomainInfo)) \<times> world" where
  "query env domainName w =
     (let w' = w\<lparr>ops := Suc (ops w), trace := trace w @ [Whois domainName]\<rparr>
      in case whois_Whois env (ops w) domainName of
           (elapsed, Inl err) \<Rightarrow> ((elapsed, Inl (Errorf_w ''WHOIS query failed: '' err)), w')
         | (elapsed, Inr rawResponse) \<Rightarrow>
             (case ParseWHOISResponse env rawResponse of
                Inl err \<Rightarrow>
                  ((elapsed,
                    Inl (Wrap (''WHOIS parsing failed for '' @ domainName @ '': '' @ Error err
                               @ [CHR 0x0A] @ ''Raw response: '' @ rawResponse) err)), w')
              | Inr info \<Rightarrow> ((elapsed, Inr info), w')))"

text \<open>
  The lookup races a timer: its result counts when it arrives before the timeout, and
  otherwise the attempt fails at the timeout.
\<close>

definition queryWithTimeout :: "Service \<Rightarrow> env \<Rightarrow> string \<Rightarrow> world \<Rightarrow> (error + DomainInfo) \<times> world" where
  "queryWithTimeout s env domainName w =
     (case query env domainName w of
        ((elapsed, res), w') \<Rightarrow>
          if int elapsed < timeout s then (res, w'\<lparr>clock := clock w' + int elapsed\<rparr>)
          else (Inl (New (''WHOIS query timed out after '' @ Duration_String env (timeout s))),
                w'\<lparr>clock := clock w' + max 0 (timeout s)\<rparr>))"

function query_attempts :: "Service \<Rightarrow> env \<Rightarrow> string \<Rightarrow> int \<Rightarrow> duration \<Rightarrow> error option \<Rightarrow> world \<Rightarrow> (error + DomainInfo) \<times> world" where
  "query_attempts s env domainName attempt backoff lastErr w =
     (if attempt < maxRetries s then
        (case queryWithTimeout s env domainName w of
           (Inr info, w1) \<Rightarrow> (Inr info, w1)
         | (Inl err, w1) \<Rightarrow>
             if attempt < wrap64 (maxRetries s - 1)
             then query_attempts s env domainName (attempt + 1) (wrap64 (backoff * 2))
                    (Some err) (time_Sleep backoff w1)
             else query_attempts s env domainName (attempt + 1) backoff (Some err) w1)
      else
        (case lastErr of
           Some err \<Rightarrow>
             (Inl (Errorf_w (''failed after '' @ Itoa (maxRetries s) @ '' attempts: '') err), w)
         | None \<Rightarrow>
             (Inl (New (''failed after '' @ Itoa (maxRetries s) @ '' attempts: %!w(<nil>)'')), w)))"
  by pat_completeness auto
termination
  by (relation "measure (\<lambda>(s, env, domainName, attempt, backoff, lastErr, w). nat (maxRetries s - attempt))")
     auto

declare query_attempts.simps [simp del]

definition QueryDomain :: "Service \<Rightarrow> env \<Rightarrow> string \<Rightarrow> world \<Rightarrow> (error + DomainInfo) \<times> world" where
  "QueryDomain s env domainName w = query_attempts s env domainName 0 Second None w"

section \<open>The scheduler\<close>

text \<open>
  The timers the runtime holds are a list; a timer is known by its position, and the map
  \<open>scheduledDomains\<close> sends a domain id to the position of its timer. A timer is active
  from \<open>time.AfterFunc\<close> until it fires or is stopped.
\<close>

definition NewScheduler :: "world \<Rightarrow> world" where
  "NewScheduler w = w\<lparr>timers := [], scheduledDomains := [], cancelled := False\<rparr>"

definition timer_Stop :: "nat \<Rightarrow> world \<Rightarrow> world" where
  "timer_Stop i w =
     (if i < length (timers w)
      then w\<lparr>timers := (timers w)[i := (timers w ! i)\<lparr>timer_active := False\<rparr>]\<rparr>
      else w)"

definition time_AfterFunc :: "duration \<Rightarrow> string \<Rightarrow> world \<Rightarrow> nat \<times> world" where
  "time_AfterFunc delay domainID w =
     (length (timers w),
      w\<lparr>timers := timers w @
         [\<lparr>timer_domain = domainID, timer_delay = delay, timer_set_at = clock w,
           timer_active = True\<rparr>]\<rparr>)"

definition ScheduleDomain :: "Domain \<Rightarrow> world \<Rightarrow> world" where
  "ScheduleDomain d w =
     (let w1 = (case map_of (scheduledDomains w) (ID d) of
                  Some timer \<Rightarrow> timer_Stop timer w
                | None \<Rightarrow> w);
          delay = (if clock w1 < NextCheck d then time_Until (clock w1) (NextCheck d) else 0)
      in case time_AfterFunc delay (ID d) w1 of
           (timer, w2) \<Rightarrow>
             w2\<lparr>scheduledDomains := AList.update (ID d) timer (scheduledDomains w2)\<rparr>)"

definition UnscheduleDomain :: "string \<Rightarrow> world \<Rightarrow> world" where
  "UnscheduleDomain domainID w =
     (case map_of (scheduledDomains w) domainID of
        Some timer \<Rightarrow>
          (timer_Stop timer w)\<lparr>scheduledDomains := AList.delete domainID (scheduledDomains w)\<rparr>
      | None \<Rightarrow> w)"

text \<open>\<open>Stop\<close> cancels the context and stops every timer of the map; the wait for the workers is not part of the state.\<close>

definition Stop :: "world \<Rightarrow> world" where
  "Stop w = fold timer_Stop (map snd (scheduledDomains w)) (w\<lparr>cancelled := True\<rparr>)"

definition reschedule :: "Domain \<Rightarrow> world \<Rightarrow> world" where
  "reschedule d w = (if cancelled w then w else ScheduleDomain d w)"

text \<open>
  One tick. A worker slot is free when the tick starts, so the first \<open>select\<close> can only
  take its second branch when the context is cancelled, and then either branch may run.
\<close>

definition checkDomain :: "Service \<Rightarrow> env \<Rightarrow> string \<Rightarrow> world \<Rightarrow> world" where
  "checkDomain whoisSvc env domainID w =
     (if cancelled w \<and> select_done env (ops w) then w
      else
        case DomainRepository_GetByID env domainID w of
          (Inl err, w1) \<Rightarrow> w1
        | (Inr d, w1) \<Rightarrow>
            (case ConfigRepository_Get env w1 of
               (Inl err, w2) \<Rightarrow> reschedule d w2
             | (Inr config, w2) \<Rightarrow>
                 (case QueryDomain whoisSvc env (Name d) w2 of
                    (Inl err, w3) \<Rightarrow>
                      (let d1 = d\<lparr>LastChecked := clock w3,
                                   NextCheck := clock w3 + GetMonitoringInterval config\<rparr>
                       in case DomainRepository_Update env d1 w3 of
                            (Some err, d2, w4) \<Rightarrow> reschedule d2 w4
                          | (None, d2, w4) \<Rightarrow>
                              (case EvaluateAlerts env d2 w4 of
                                 (alertErr, w5) \<Rightarrow> reschedule d2 w5))
                  | (Inr info, w3) \<Rightarrow>
                      (let d1 = d\<lparr>ExpirationDate := InfoExpirationDate info,
                                   Nameservers := InfoNameservers info,
                                   Registrant := InfoRegistrant info,
                                   Registrar := InfoRegistrar info,
                                   LastChecked := clock w3,
                                   NextCheck := clock w3 + GetMonitoringInterval config\<rparr>
                       in case DomainRepository_Update env d1 w3 of
                            (Some err, d2, w4) \<Rightarrow> reschedule d2 w4
                          | (None, d2, w4) \<Rightarrow>
                              (case EvaluateAlerts env d2 w4 of
                                 (alertErr, w5) \<Rightarrow> reschedule d2 w5)))))"

text \<open>
  A timer fires once, not before its delay has passed, and runs the tick of its domain.
\<close>

definition fire :: "Service \<Rightarrow> env \<Rightarrow> nat \<Rightarrow> world \<Rightarrow> world option" where
  "fire whoisSvc env i w =
     (if i < length (timers w) \<and> timer_active (timers w ! i) then
        (let t = timers w ! i;
             w1 = (timer_Stop i w)\<lparr>clock := max (clock w) (timer_set_at t + max 0 (timer_delay t))\<rparr>
         in Some (checkDomain whoisSvc env (timer_domain t) w1))
      else None)"

section \<open>The configuration handler\<close>

record form =
  monitoring_interval :: string
  webhook_url :: string
  retention_period :: string
  alert_thresholds :: string

datatype response =
  Redirect string int
  | ErrorPage int string "error option"

fun parse_thresholds :: "env \<Rightarrow> string list \<Rightarrow> duration list \<Rightarrow> string + duration list" where
  "parse_thresholds env [] thresholds = Inr thresholds"
| "parse_thresholds env (dayStr0 # thresholdDays) thresholds =
     (let dayStr = TrimSpace env dayStr0
      in if dayStr = [] then parse_thresholds env thresholdDays thresholds
         else
           (case Sscanf_d env dayStr of
              None \<Rightarrow> Inl dayStr
            | Some days \<Rightarrow>
                if days \<le> 0 then Inl dayStr
                else parse_thresholds env thresholdDays
                       (thresholds @ [wrap64 (wrap64 (days * 24) * Hour)])))"

definition update_interval :: "env \<Rightarrow> form \<Rightarrow> Config \<Rightarrow> response + Config" where
  "update_interval env f c =
     (let intervalHours = monitoring_interval f
      in if intervalHours \<noteq> [] then
           (let hours = (case Sscanf_d env intervalHours of Some h \<Rightarrow> h | None \<Rightarrow> 0)
            in if hours < 1
               then Inl (ErrorPage 400 ''Monitoring interval must be at least 1 hour'' None)
               else Inr (SetMonitoringInterval (wrap64 (hours * Hour)) c))
         else Inr c)"

definition update_webhook :: "form \<Rightarrow> Config \<Rightarrow> response + Config" where
  "update_webhook f c =
     (let webhook = webhook_url f
      in if webhook \<noteq> [] \<and> \<not> HasPrefix webhook ''https://''
         then Inl (ErrorPage 400 ''Webhook URL must use HTTPS'' None)
         else Inr (c\<lparr>GoogleChatWebhook := webhook\<rparr>))"

definition update_retention :: "env \<Rightarrow> form \<Rightarrow> Config \<Rightarrow> response + Config" where
  "update_retention env f c =
     (let retentionDays = retention_period f
      in if retentionDays \<noteq> [] then
           (let days = (case Sscanf_d env retentionDays of Some n \<Rightarrow> n | None \<Rightarrow> 0)
            in if days < 1
               then Inl (ErrorPage 400 ''Retention period must be at least 1 day'' None)
               else Inr (SetRetentionPeriod (wrap64 (wrap64 (days * 24) * Hour)) c))
         else Inr c)"

definition update_thresholds :: "env \<Rightarrow> form \<Rightarrow> Config \<Rightarrow> response + Config" where
  "update_thresholds env f c =
     (let thresholdsStr = alert_thresholds f
      in if thresholdsStr \<noteq> [] then
           (case parse_thresholds env (Split thresholdsStr (CHR '','')) [] of
              Inl dayStr \<Rightarrow> Inl (ErrorPage 400 (''Invalid threshold value: '' @ dayStr) None)
            | Inr thresholds \<Rightarrow>
                if length thresholds = 0
                then Inl (ErrorPage 400 ''At least one alert threshold is required'' None)
                else Inr (SetAlertThresholds thresholds c))
         else Inr c)"

text \<open>
  The request carries its form, or the error of \<open>ParseForm\<close>. The four fields are checked
  in the order of the source; the first one refused ends the request.
\<close>

definition handleUpdateConfig :: "env \<Rightarrow> error + form \<Rightarrow> world \<Rightarrow> response \<times> world" where
  "handleUpdateConfig env r w =
     (case r of
        Inl err \<Rightarrow> (ErrorPage 400 ''Invalid form data'' (Some err), w)
      | Inr f \<Rightarrow>
          (case ConfigRepository_Get env w of
             (Inl err, w1) \<Rightarrow> (ErrorPage 500 ''Failed to load configuration'' (Some err), w1)
           | (Inr config0, w1) \<Rightarrow>
               (case update_interval env f config0 of
                  Inl resp \<Rightarrow> (resp, w1)
                | Inr config1 \<Rightarrow>
                    (case update_webhook f config1 of
                       Inl resp \<Rightarrow> (resp, w1)
                     | Inr config2 \<Rightarrow>
                         (case update_retention env f config2 of
                            Inl resp \<Rightarrow> (resp, w1)
                          | Inr config3 \<Rightarrow>
                              (case update_thresholds env f config3 of
                                 Inl resp \<Rightarrow> (resp, w1)
                               | Inr config4 \<Rightarrow>
                                   (case ConfigRepository_Update env config4 w1 of
                                      (Some err, w2) \<Rightarrow>
                                        (ErrorPage 500 ''Failed to update configuration'' (Some err), w2)
                                    | (None, w2) \<Rightarrow> (Redirect ''/config'' 303, w2))))))))"

section \<open>Notions used by the statements\<close>

text \<open>
  An environment is fault free when no round trip to the store fails. \<open>records_for\<close>
  selects the alert records of a (domain, threshold) pair, the rows the deduplication
  query counts. \<open>store\<close> and \<open>sched\<close> project the state on the tables and on the
  scheduler. The last three definitions are a sample environment, domain and state: the
  test domain of the repository's alert guide, 25 days before it expires, on an empty
  store.
\<close>

definition fault_free :: "env \<Rightarrow> bool" where
  "fault_free env = (\<forall>n. db_fault env n = None)"

definition records_for :: "string \<Rightarrow> duration \<Rightarrow> world \<Rightarrow> Alert list" where
  "records_for domainID threshold w =
     filter (\<lambda>a. DomainID a = domainID \<and> Threshold a = threshold) (tbl_alerts w)"

definition store :: "world \<Rightarrow> Domain list \<times> Config option \<times> Alert list" where
  "store w = (tbl_domains w, tbl_config w, tbl_alerts w)"

definition sched :: "world \<Rightarrow> Timer list \<times> (string \<times> nat) list \<times> bool" where
  "sched w = (timers w, scheduledDomains w, cancelled w)"

definition quiet_env :: env where
  "quiet_env =
     \<lparr>db_fault = (\<lambda>n. None),
      uuid_New = (\<lambda>n. ''alert-'' @ Itoa (int n)),
      whois_Whois = (\<lambda>n domainName. (0, Inl (New ''connection refused''))),
      ParseWHOISResponse = (\<lambda>rawResponse. Inl (New ''no domain information'')),
      http_Post = (\<lambda>n url body. Inr 200),
      select_done = (\<lambda>n. False),
      Duration_String = (\<lambda>d. Itoa (d div Second) @ ''s''),
      Sscanf_d = (\<lambda>s. None),
      TrimSpace = (\<lambda>s. s)\<rparr>"

definition test_domain :: Domain where
  "test_domain =
     \<lparr>ID = ''d1'', Name = ''test-alert-domain.com'', ExpirationDate = 1766966400000000000,
      Nameservers = [''ns1.example.com'', ''ns2.example.com''], Registrant = ''Test User'',
      Registrar = ''Test Registrar'', LastChecked = 1764720000000000000,
      NextCheck = 1764802800000000000, CreatedAt = 1764720000000000000,
      UpdatedAt = 1764720000000000000\<rparr>"

definition fresh_world :: world where
  "fresh_world =
     \<lparr>clock = 1764806400000000000, ops = 0, tbl_domains = [test_domain], tbl_config = None,
      tbl_alerts = [], timers = [], scheduledDomains = [], cancelled = False, trace = []\<rparr>"

definition new_alert :: "Domain \<Rightarrow> duration \<Rightarrow> time \<Rightarrow> Alert" where
  "new_alert d threshold now =
     SetThreshold threshold
       \<lparr>AlertID = [], DomainID = ID d, DomainName = Name d, Threshold = 0,
        AlertExpirationDate = ExpirationDate d, SentAt = now, Success = False,
        ErrorMessage = []\<rparr>"

definition with_outcome :: "error option \<Rightarrow> Alert \<Rightarrow> Alert" where
  "with_outcome sendErr alert =
     (case sendErr of
        Some err \<Rightarrow> alert\<lparr>Success := False, ErrorMessage := Error err\<rparr>
      | None \<Rightarrow> alert\<lparr>Success := True\<rparr>)"

definition undelivered :: "Domain \<Rightarrow> time \<Rightarrow> duration \<Rightarrow> Alert" where
  "undelivered d now threshold =
     \<lparr>AlertID = [], DomainID = ID d, DomainName = Name d, Threshold = threshold,
      AlertExpirationDate = ExpirationDate d, SentAt = now, Success = False,
      ErrorMessage = ''no webhook URL configured''\<rparr>"

definition erase_ids :: "Alert list \<Rightarrow> Alert list" where
  "erase_ids as = map (\<lambda>a. a\<lparr>AlertID := []\<rparr>) as"

definition faulty_env :: "nat \<Rightarrow> env" where
  "faulty_env k =
     quiet_env\<lparr>db_fault := (\<lambda>n. if n = k then Some (New ''database is locked'') else None)\<rparr>"

definition default_config :: Config where
  "default_config =
     \<lparr>ConfigID = 1, MonitoringInterval = 24 * Hour,
      AlertThresholds = [90 * 24 * Hour, 60 * 24 * Hour, 30 * 24 * Hour, 7 * 24 * Hour],
      GoogleChatWebhook = [], RetentionPeriod = 90 * 24 * Hour,
      ConfigUpdatedAt = 1764806400000000000\<rparr>"

definition blank_world :: world where
  "blank_world =
     \<lparr>clock = 0, ops = 0, tbl_domains = [], tbl_config = None, tbl_alerts = [], timers = [],
      scheduledDomains = [], cancelled = False, trace = []\<rparr>"

definition nth_attempt :: "Service \<Rightarrow> env \<Rightarrow> string \<Rightarrow> nat \<Rightarrow> error + DomainInfo" where
  "nth_attempt s env domainName n = fst (queryWithTimeout s env domainName (blank_world\<lparr>ops := n\<rparr>))"

definition hanging_env :: env where
  "hanging_env = quiet_env\<lparr>whois_Whois := (\<lambda>n domainName. (60000000000, Inr []))\<rparr>"

definition active_for :: "string \<Rightarrow> world \<Rightarrow> Timer list" where
  "active_for domainID w =
     filter (\<lambda>t. timer_active t \<and> timer_domain t = domainID) (timers w)"

definition sched_inv :: "world \<Rightarrow> bool" where
  "sched_inv w =
     (\<forall>i < length (timers w).
        timer_active (timers w ! i) \<longrightarrow>
        map_of (scheduledDomains w) (timer_domain (timers w ! i)) = Some i)"

definition armed :: "Domain \<Rightarrow> world \<Rightarrow> Timer" where
  "armed d w =
     \<lparr>timer_domain = ID d, timer_delay = max 0 (time_Until (clock w) (NextCheck d)),
      timer_set_at = clock w, timer_active = True\<rparr>"

definition stopped :: "Domain \<Rightarrow> world \<Rightarrow> Timer list" where
  "stopped d w =
     (case map_of (scheduledDomains w) (ID d) of
        Some i \<Rightarrow> (timers w)[i := (timers w ! i)\<lparr>timer_active := False\<rparr>]
      | None \<Rightarrow> timers w)"

definition due_domain :: Domain where
  "due_domain = test_domain\<lparr>NextCheck := 1764810000000000000\<rparr>"



subsection \<open>Configuration updates\<close>

text \<open>
  The sample environment reads a field the way \<open>Sscanf\<close> reads \<open>%d\<close> from a numeral: an
  optional sign and the decimal digits that follow, up to the first other byte; no digit,
  or a value outside 64 bits, is an error. The sample forms fill one field each.
\<close>

fun scan_digits :: "string \<Rightarrow> int \<Rightarrow> bool \<Rightarrow> int option" where
  "scan_digits [] acc seen = (if seen then Some acc else None)"
| "scan_digits (c # cs) acc seen =
     (if c \<in> set ''0123456789'' then scan_digits cs (10 * acc + (of_char c - 48)) True
      else if seen then Some acc else None)"

definition scan_decimal :: "string \<Rightarrow> int option" where
  "scan_decimal s =
     (let r = (case s of
                 [] \<Rightarrow> None
               | c # cs \<Rightarrow>
                   if c = CHR ''-'' then map_option uminus (scan_digits cs 0 False)
                   else if c = CHR ''+'' then scan_digits cs 0 False
                   else scan_digits s 0 False)
      in case r of
           None \<Rightarrow> None
         | Some n \<Rightarrow> if minDuration \<le> n \<and> n \<le> maxDuration then Some n else None)"

definition form_env :: env where
  "form_env = quiet_env\<lparr>Sscanf_d := scan_decimal\<rparr>"

definition configured_world :: world where
  "configured_world = fresh_world\<lparr>tbl_config := Some default_config\<rparr>"

definition blank_form :: form where
  "blank_form =
     \<lparr>monitoring_interval = [], webhook_url = [], retention_period = [], alert_thresholds = []\<rparr>"

definition interval_form :: "string \<Rightarrow> form" where
  "interval_form s = blank_form\<lparr>monitoring_interval := s\<rparr>"

definition retention_form :: "string \<Rightarrow> form" where
  "retention_form s = blank_form\<lparr>retention_period := s\<rparr>"

definition thresholds_form :: "string \<Rightarrow> form" where
  "thresholds_form s = blank_form\<lparr>alert_thresholds := s\<rparr>"

subsection \<open>The alert message\<close>

text \<open>
  The message as the specification words it: the bell (U+1F514, four bytes in UTF-8), the
  title and the five lines. The sample alert is the one of the alert testing guide: 25 days
  before an expiration on 2025-12-29, at the threshold of 30 days.
\<close>

definition bell :: string where
  "bell = [CHR 0xF0, CHR 0x9F, CHR 0x94, CHR 0x94]"

definition documented_message :: "Alert \<Rightarrow> string" where
  "documented_message alert =
     bell @ '' Domain Expiration Alert'' @ [CHR 0x0A, CHR 0x0A]
     @ ''Domain: '' @ DomainName alert @ [CHR 0x0A]
     @ ''Expiration Date: '' @ Format_2006_01_02 (AlertExpirationDate alert) @ [CHR 0x0A]
     @ ''Days Remaining: '' @ Itoa (DaysUntilExpiration alert) @ [CHR 0x0A]
     @ ''Alert Threshold: ''
     @ Itoa (f64_to_int (f64_div (Hours (GetThreshold alert)) (f64_of_int 24)))
     @ '' days'' @ [CHR 0x0A, CHR 0x0A]
     @ ''Please renew this domain to avoid service disruption.''"

definition guide_alert :: Alert where
  "guide_alert =
     \<lparr>AlertID = ''a1'', DomainID = ''d1'', DomainName = ''test-alert-domain.com'',
      Threshold = 30 * 24 * Hour, AlertExpirationDate = 1766966400000000000,
      SentAt = 1764806400000000000, Success = True, ErrorMessage = []\<rparr>"

section \<open>Retention\<close>

text \<open>
  C9. For every cutoff and every state of the store, the retention deletion of the domain
  repository removes no row: its filter asks for an id outside the set of all ids of the
  table, so the table after the call is the table before it, whether the statement ran
  or the driver reported an error.
\<close>

theorem DeleteOlderThan_inert:
  "tbl_domains (snd (DomainRepository_DeleteOlderThan env cutoff w)) = tbl_domains w"
proof -
  have keep: "filter (\<lambda>r. \<not> (CreatedAt r < cutoff \<and> ID r \<notin> set (map ID rows))) rows = rows"
    for rows :: "Domain list"
    by (rule filter_True) auto
  show ?thesis
    by (cases "db_fault env (ops w)")
       (simp_all add: DomainRepository_DeleteOlderThan_def db_Exec_def db_call_def keep)
qed

section \<open>Alert evaluation\<close>

subsection \<open>What the parts of an evaluation leave unchanged\<close>

lemma store_eqD:
  "store w' = store w \<Longrightarrow>
     tbl_domains w' = tbl_domains w \<and> tbl_config w' = tbl_config w \<and> tbl_alerts w' = tbl_alerts w"
  by (simp add: store_def)

lemma sched_eqD:
  "sched w' = sched w \<Longrightarrow>
     timers w' = timers w \<and> scheduledDomains w' = scheduledDomains w \<and> cancelled w' = cancelled w"
  by (simp add: sched_def)

lemma time_Sleep_frame [simp]:
  "store (time_Sleep d w) = store w" "sched (time_Sleep d w) = sched w"
  by (simp_all add: time_Sleep_def store_def sched_def)

lemma sendToWebhook_frame [simp]:
  "store (snd (sendToWebhook env url m w)) = store w"
  "sched (snd (sendToWebhook env url m w)) = sched w"
  by (simp_all add: sendToWebhook_def Let_def store_def sched_def split: sum.splits)

lemma send_attempts_frame [simp]:
  "store (snd (send_attempts env url m a b l w)) = store w \<and>
   sched (snd (send_attempts env url m a b l w)) = sched w"
proof (induction env url m a b l w rule: send_attempts.induct)
  case (1 env url m a b l w)
  obtain r w1 where sw: "sendToWebhook env url m w = (r, w1)"
    by (cases "sendToWebhook env url m w")
  have fr: "store w1 = store w" "sched w1 = sched w"
    using sendToWebhook_frame [of env url m w] sw by simp_all
  show ?case
  proof (cases "a < 3")
    case False
    then show ?thesis
      by (subst send_attempts.simps, simp split: option.splits)+
  next
    case True
    show ?thesis
    proof (cases r)
      case None
      with True sw fr show ?thesis
        by (subst send_attempts.simps, simp)+
    next
      case (Some err)
      show ?thesis
      proof (cases "a < 2")
        case a2: True
        show ?thesis
          using True a2 sw Some fr "1.IH"(1) [OF True sw [symmetric] _ a2]
          by (subst send_attempts.simps, simp)+
      next
        case a2: False
        show ?thesis
          using True a2 sw Some fr "1.IH"(2) [OF True sw [symmetric] _ a2]
          by (subst send_attempts.simps, simp)+
      qed
    qed
  qed
qed

lemma SendAlert_frame [simp]:
  "store (snd (SendAlert env alert url w)) = store w"
  "sched (snd (SendAlert env alert url w)) = sched w"
  by (simp_all add: SendAlert_def)

lemma SendAlert_alerts [simp]: "tbl_alerts (snd (SendAlert env alert url w)) = tbl_alerts w"
  using SendAlert_frame(1) [of env alert url w] by (simp add: store_def)

lemma HasAlertBeenSent_fault_free:
  "fault_free env \<Longrightarrow>
     HasAlertBeenSent env domainID threshold w =
       (Inr (records_for domainID threshold w \<noteq> []), w\<lparr>ops := Suc (ops w)\<rparr>)"
  by (simp add: HasAlertBeenSent_def db_Get_def db_call_def fault_free_def records_for_def)

lemma Create_fault_free:
  "fault_free env \<Longrightarrow>
     fst (AlertRepository_Create env alert w) = None \<and>
     (\<exists>a. tbl_alerts (snd (AlertRepository_Create env alert w)) = tbl_alerts w @ [a] \<and>
          DomainID a = DomainID alert \<and> Threshold a = Threshold alert)"
  by (auto simp add: AlertRepository_Create_def db_Exec_def db_call_def fault_free_def)

lemma records_for_ops [simp]: "records_for i t (w\<lparr>ops := n\<rparr>) = records_for i t w"
  by (simp add: records_for_def)

lemma evaluate_thresholds_fault_free:
  "fault_free env \<Longrightarrow>
     fst (evaluate_thresholds env d config remaining thresholds w) = None \<and>
     (\<forall>i t. length (records_for i t (snd (evaluate_thresholds env d config remaining thresholds w))) =
        length (records_for i t w) +
        (if i = ID d \<and> t \<in> set thresholds \<and> 0 < remaining \<and> remaining \<le> t \<and> records_for i t w = []
         then 1 else 0))"
proof (induction thresholds arbitrary: w)
  case Nil
  then show ?case by simp
next
  case (Cons threshold thresholds)
  note ff = Cons.prems
  show ?case
  proof (cases "remaining \<le> threshold \<and> remaining > 0")
    case False
    then show ?thesis
      using Cons.IH [OF ff, of w] by auto
  next
    case guard: True
    show ?thesis
    proof (cases "records_for (ID d) threshold w = []")
      case False
      then show ?thesis
        using guard Cons.IH [OF ff, of "w\<lparr>ops := Suc (ops w)\<rparr>"]
        by (auto simp: HasAlertBeenSent_fault_free [OF ff])
    next
      case fresh: True
      define alert where "alert = SetThreshold threshold
                              \<lparr>AlertID = [], DomainID = ID d, DomainName = Name d, Threshold = 0,
                               AlertExpirationDate = ExpirationDate d, SentAt = clock w,
                               Success = False, ErrorMessage = []\<rparr>"
      obtain sendErr w2 where sa: "SendAlert env alert (GoogleChatWebhook config) (w\<lparr>ops := Suc (ops w)\<rparr>) = (sendErr, w2)"
        by (cases "SendAlert env alert (GoogleChatWebhook config) (w\<lparr>ops := Suc (ops w)\<rparr>)")
      have w2: "tbl_alerts w2 = tbl_alerts w"
        using SendAlert_alerts [of env alert "GoogleChatWebhook config" "w\<lparr>ops := Suc (ops w)\<rparr>"] sa
        by simp
      define alert' where "alert' = (case sendErr of
                                 Some err \<Rightarrow> alert\<lparr>Success := False, ErrorMessage := Error err\<rparr>
                               | None \<Rightarrow> alert\<lparr>Success := True\<rparr>)"
      have ids: "DomainID alert' = ID d" "Threshold alert' = threshold"
        by (simp_all add: alert'_def alert_def SetThreshold_def split: option.splits)
      obtain r w3 where cr: "AlertRepository_Create env alert' w2 = (r, w3)"
        by (cases "AlertRepository_Create env alert' w2")
      from Create_fault_free [OF ff, of alert' w2] cr ids w2
      obtain a where r: "r = None" and w3: "tbl_alerts w3 = tbl_alerts w @ [a]"
        and a: "DomainID a = ID d" "Threshold a = threshold"
        by auto
      have rec3: "records_for i t w3 = records_for i t w @ (if i = ID d \<and> t = threshold then [a] else [])"
        for i t
        using w3 a by (auto simp: records_for_def)
      have step: "evaluate_thresholds env d config remaining (threshold # thresholds) w =
                  evaluate_thresholds env d config remaining thresholds w3"
        using guard fresh sa cr r unfolding alert'_def alert_def
        by (cases sendErr) (simp_all add: HasAlertBeenSent_fault_free [OF ff] Let_def)
      show ?thesis
        unfolding step
        using Cons.IH [OF ff, of w3] fresh guard
        by (auto simp: rec3)
    qed
  qed
qed

lemma db_call_frame [simp]:
  "store (snd (db_call env w)) = store w" "sched (snd (db_call env w)) = sched w"
  "clock (snd (db_call env w)) = clock w"
  by (simp_all add: db_call_def store_def sched_def)

lemma HasAlertBeenSent_frame [simp]:
  "store (snd (HasAlertBeenSent env i t w)) = store w"
  "sched (snd (HasAlertBeenSent env i t w)) = sched w"
  "clock (snd (HasAlertBeenSent env i t w)) = clock w"
  by (simp_all add: HasAlertBeenSent_def db_Get_def db_call_def store_def sched_def
      split: option.splits)

lemma Create_alerts:
  "\<exists>aid. tbl_alerts (snd (AlertRepository_Create env alert w)) =
           tbl_alerts w @
           (if fst (AlertRepository_Create env alert w) = None then [alert\<lparr>AlertID := aid\<rparr>] else [])"
proof (cases "AlertID alert = []")
  case True
  then show ?thesis
    by (intro exI [of _ "uuid_New env (ops w)"], cases "db_fault env (Suc (ops w))")
       (simp_all add: AlertRepository_Create_def db_Exec_def db_call_def)
next
  case False
  then show ?thesis
    by (intro exI [of _ "AlertID alert"], cases "db_fault env (ops w)")
       (simp_all add: AlertRepository_Create_def db_Exec_def db_call_def)
qed

lemma evaluate_thresholds_new:
  "\<exists>new. tbl_alerts (snd (evaluate_thresholds env d config remaining thresholds w)) =
           tbl_alerts w @ new \<and>
         (\<forall>a \<in> set new. DomainID a = ID d \<and> Threshold a \<in> set thresholds \<and>
                          0 < remaining \<and> remaining \<le> Threshold a)"
proof (induction thresholds arbitrary: w)
  case Nil
  then show ?case by simp
next
  case (Cons threshold thresholds)
  show ?case
  proof (cases "remaining \<le> threshold \<and> remaining > 0")
    case False
    then show ?thesis
      using Cons.IH [of w] by auto
  next
    case guard: True
    obtain h w1 where hs: "HasAlertBeenSent env (ID d) threshold w = (h, w1)"
      by (cases "HasAlertBeenSent env (ID d) threshold w")
    have w1: "tbl_alerts w1 = tbl_alerts w"
      using HasAlertBeenSent_frame(1) [of env "ID d" threshold w] hs by (simp add: store_def)
    show ?thesis
    proof (cases h)
      case (Inl err)
      then show ?thesis using guard hs w1 by simp
    next
      case (Inr alreadySent)
      show ?thesis
      proof (cases alreadySent)
        case True
        then show ?thesis
          using guard hs w1 Inr Cons.IH [of w1] by auto
      next
        case False
        define alert where "alert = SetThreshold threshold
                              \<lparr>AlertID = [], DomainID = ID d, DomainName = Name d, Threshold = 0,
                               AlertExpirationDate = ExpirationDate d, SentAt = clock w1,
                               Success = False, ErrorMessage = []\<rparr>"
        obtain sendErr w2 where sa: "SendAlert env alert (GoogleChatWebhook config) w1 = (sendErr, w2)"
          by (cases "SendAlert env alert (GoogleChatWebhook config) w1")
        have w2: "tbl_alerts w2 = tbl_alerts w"
          using SendAlert_alerts [of env alert "GoogleChatWebhook config" w1] sa w1 by simp
        define alert' where "alert' = (case sendErr of
                                 Some err \<Rightarrow> alert\<lparr>Success := False, ErrorMessage := Error err\<rparr>
                               | None \<Rightarrow> alert\<lparr>Success := True\<rparr>)"
        have ids: "DomainID alert' = ID d" "Threshold alert' = threshold"
          by (simp_all add: alert'_def alert_def SetThreshold_def split: option.splits)
        obtain r w3 where cr: "AlertRepository_Create env alert' w2 = (r, w3)"
          by (cases "AlertRepository_Create env alert' w2")
        from Create_alerts [of env alert' w2] cr w2
        obtain aid where w3': "tbl_alerts w3 = tbl_alerts w @ (if r = None then [alert'\<lparr>AlertID := aid\<rparr>] else [])"
          by auto
        define a where "a = alert'\<lparr>AlertID := aid\<rparr>"
        have a: "DomainID a = ID d" "Threshold a = threshold"
          and w3: "tbl_alerts w3 = tbl_alerts w @ (if r = None then [a] else [])"
          using ids w3' by (simp_all add: a_def)
        have step: "evaluate_thresholds env d config remaining (threshold # thresholds) w =
                  (case r of Some err \<Rightarrow> (Some (Errorf_w ''failed to save alert: '' err), w3)
                   | None \<Rightarrow> evaluate_thresholds env d config remaining thresholds w3)"
          using guard hs Inr False sa cr unfolding alert'_def alert_def
          by (cases sendErr) (simp_all add: Let_def)
        show ?thesis
        proof (cases r)
          case None
          from Cons.IH [of w3] obtain new where
            new: "tbl_alerts (snd (evaluate_thresholds env d config remaining thresholds w3)) = tbl_alerts w3 @ new"
              "\<forall>a \<in> set new. DomainID a = ID d \<and> Threshold a \<in> set thresholds \<and>
                          0 < remaining \<and> remaining \<le> Threshold a"
            by blast
          show ?thesis
            unfolding step using None new w3 a guard
            by (intro exI [of _ "a # new"]) auto
        next
          case (Some err)
          then show ?thesis
            unfolding step using w3 by simp
        qed
      qed
    qed
  qed
qed

lemma db_Get_frame [simp]:
  "store (snd (db_Get env row w)) = store w" "sched (snd (db_Get env row w)) = sched w"
  "clock (snd (db_Get env row w)) = clock w"
  by (simp_all add: db_Get_def db_call_def store_def sched_def split: option.splits)

lemma ConfigRepository_create_frame [simp]:
  "tbl_alerts (snd (snd (ConfigRepository_create env c w))) = tbl_alerts w"
  "tbl_domains (snd (snd (ConfigRepository_create env c w))) = tbl_domains w"
  "sched (snd (snd (ConfigRepository_create env c w))) = sched w"
  "clock (snd (snd (ConfigRepository_create env c w))) = clock w"
  by (simp_all add: ConfigRepository_create_def db_call_def sched_def Let_def split: option.splits)

lemma ConfigRepository_Get_frame [simp]:
  "tbl_alerts (snd (ConfigRepository_Get env w)) = tbl_alerts w"
  "tbl_domains (snd (ConfigRepository_Get env w)) = tbl_domains w"
  "sched (snd (ConfigRepository_Get env w)) = sched w"
  "clock (snd (ConfigRepository_Get env w)) = clock w"
proof -
  obtain g w1 where g: "db_Get env (tbl_config w) w = (g, w1)"
    by (cases "db_Get env (tbl_config w) w")
  have w1: "store w1 = store w" "sched w1 = sched w" "clock w1 = clock w"
    using db_Get_frame [of env "tbl_config w" w] g by simp_all
  obtain r c w2 where cr: "ConfigRepository_create env (createDefaultConfig w1) w1 = (r, c, w2)"
    by (cases "ConfigRepository_create env (createDefaultConfig w1) w1") auto
  have w2: "tbl_alerts w2 = tbl_alerts w" "tbl_domains w2 = tbl_domains w" "sched w2 = sched w"
    "clock w2 = clock w"
    using ConfigRepository_create_frame [of env "createDefaultConfig w1" w1] cr w1
    by (simp_all add: store_def)
  show "tbl_alerts (snd (ConfigRepository_Get env w)) = tbl_alerts w"
    "tbl_domains (snd (ConfigRepository_Get env w)) = tbl_domains w"
    "sched (snd (ConfigRepository_Get env w)) = sched w"
    "clock (snd (ConfigRepository_Get env w)) = clock w"
    using g w1 cr w2
    by (simp_all add: ConfigRepository_Get_def store_def split: sum.splits option.splits)
qed

lemma ConfigRepository_Get_fault_free:
  "fault_free env \<Longrightarrow> \<exists>config. fst (ConfigRepository_Get env w) = Inr config"
  by (cases "tbl_config w")
     (simp_all add: ConfigRepository_Get_def db_Get_def db_call_def fault_free_def
        ConfigRepository_create_def Let_def)

lemma EvaluateAlerts_new:
  "\<exists>new. tbl_alerts (snd (EvaluateAlerts env d w)) = tbl_alerts w @ new \<and>
         (\<forall>a \<in> set new. DomainID a = ID d \<and>
            0 < time_Until (clock w) (ExpirationDate d) \<and>
            time_Until (clock w) (ExpirationDate d) \<le> Threshold a)"
proof -
  obtain g w1 where g: "ConfigRepository_Get env w = (g, w1)"
    by (cases "ConfigRepository_Get env w")
  have w1: "tbl_alerts w1 = tbl_alerts w" "clock w1 = clock w"
    using ConfigRepository_Get_frame [of env w] g by simp_all
  show ?thesis
  proof (cases g)
    case (Inl err)
    then show ?thesis using g w1 by (simp add: EvaluateAlerts_def)
  next
    case (Inr config)
    from evaluate_thresholds_new [of env d config "time_Until (clock w) (ExpirationDate d)"
        "GetAlertThresholds config" w1]
    show ?thesis
      using g Inr w1 by (simp add: EvaluateAlerts_def) blast
  qed
qed

lemma EvaluateAlerts_fault_free:
  assumes "fault_free env" and "ConfigRepository_Get env w = (Inr config, w0)"
  shows "fst (EvaluateAlerts env d w) = None"
    and "length (records_for i t (snd (EvaluateAlerts env d w))) =
        length (records_for i t w) +
        (if i = ID d \<and> t \<in> set (GetAlertThresholds config) \<and>
            0 < time_Until (clock w) (ExpirationDate d) \<and>
            time_Until (clock w) (ExpirationDate d) \<le> t \<and> records_for i t w = []
         then 1 else 0)"
proof -
  have w0: "tbl_alerts w0 = tbl_alerts w" "clock w0 = clock w"
    using ConfigRepository_Get_frame [of env w] assms(2) by simp_all
  then have rec: "records_for i t w0 = records_for i t w" for i t
    by (simp add: records_for_def)
  from evaluate_thresholds_fault_free [OF assms(1), of d config
      "time_Until (clock w) (ExpirationDate d)" "GetAlertThresholds config" w0]
  show "fst (EvaluateAlerts env d w) = None"
    and "length (records_for i t (snd (EvaluateAlerts env d w))) =
        length (records_for i t w) +
        (if i = ID d \<and> t \<in> set (GetAlertThresholds config) \<and>
            0 < time_Until (clock w) (ExpirationDate d) \<and>
            time_Until (clock w) (ExpirationDate d) \<le> t \<and> records_for i t w = []
         then 1 else 0)"
    using assms(2) w0 rec by (simp_all add: EvaluateAlerts_def)
qed

lemma records_for_clock [simp]: "records_for i t (w\<lparr>clock := c\<rparr>) = records_for i t w"
  by (simp add: records_for_def)

subsection \<open>One alert per domain and threshold\<close>

text \<open>
  C1. Take a domain \<open>d\<close> and a threshold \<open>t\<close> of the configuration the evaluation reads,
  with \<open>0 < remaining \<le> t\<close> for \<open>remaining = time.Until(d.ExpirationDate)\<close> and no alert
  record for \<open>(d.ID, t)\<close>. When no round trip to the store fails, one call of
  \<open>EvaluateAlerts\<close> returns no error and leaves exactly one record for the pair; a second
  call on the resulting state, at any later clock reading, adds none for the pair. And
  whatever the environment does, a call creates no record for a threshold \<open>u\<close> unless
  \<open>0 < remaining \<le> u\<close>: none above the threshold, none for an expired domain.
\<close>

theorem EvaluateAlerts_alert_once:
  assumes "fault_free env" and "fault_free env'"
    and "ConfigRepository_Get env w = (Inr config, w0)"
    and "t \<in> set (GetAlertThresholds config)"
    and "0 < time_Until (clock w) (ExpirationDate d)"
    and "time_Until (clock w) (ExpirationDate d) \<le> t"
    and "records_for (ID d) t w = []"
  shows "fst (EvaluateAlerts env d w) = None \<and>
         length (records_for (ID d) t (snd (EvaluateAlerts env d w))) = 1 \<and>
         records_for (ID d) t
           (snd (EvaluateAlerts env' d ((snd (EvaluateAlerts env d w))\<lparr>clock := now'\<rparr>))) =
         records_for (ID d) t (snd (EvaluateAlerts env d w)) \<and>
         (\<forall>env'' w'' u.
            \<not> (0 < time_Until (clock w'') (ExpirationDate d) \<and>
               time_Until (clock w'') (ExpirationDate d) \<le> u) \<longrightarrow>
            records_for (ID d) u (snd (EvaluateAlerts env'' d w'')) = records_for (ID d) u w'')"
proof -
  define w1 where "w1 = snd (EvaluateAlerts env d w)"
  have ok: "fst (EvaluateAlerts env d w) = None"
    by (rule EvaluateAlerts_fault_free(1) [OF assms(1) assms(3)])
  have one: "length (records_for (ID d) t w1) = 1"
    unfolding w1_def
    using EvaluateAlerts_fault_free(2) [OF assms(1) assms(3), of "ID d" t d] assms(4-7)
    by simp
  define w1' where "w1' = w1\<lparr>clock := now'\<rparr>"
  obtain config' where "fst (ConfigRepository_Get env' w1') = Inr config'"
    using ConfigRepository_Get_fault_free [OF assms(2)] by blast
  then have get': "ConfigRepository_Get env' w1' = (Inr config', snd (ConfigRepository_Get env' w1'))"
    by (metis prod.collapse)
  have len: "length (records_for (ID d) t (snd (EvaluateAlerts env' d w1'))) =
             length (records_for (ID d) t w1')"
    using EvaluateAlerts_fault_free(2) [OF assms(2) get', of "ID d" t d] one
    by (auto simp: w1'_def)
  obtain new where new: "tbl_alerts (snd (EvaluateAlerts env' d w1')) = tbl_alerts w1' @ new"
    using EvaluateAlerts_new [of env' d w1'] by blast
  have again: "records_for (ID d) t (snd (EvaluateAlerts env' d w1')) = records_for (ID d) t w1"
  proof -
    have "records_for (ID d) t (snd (EvaluateAlerts env' d w1')) =
          records_for (ID d) t w1' @ filter (\<lambda>a. DomainID a = ID d \<and> Threshold a = t) new"
      using new by (simp add: records_for_def)
    with len show ?thesis by (simp add: w1'_def)
  qed
  have never: "records_for (ID d) u (snd (EvaluateAlerts env'' d w'')) = records_for (ID d) u w''"
    if "\<not> (0 < time_Until (clock w'') (ExpirationDate d) \<and>
            time_Until (clock w'') (ExpirationDate d) \<le> u)"
    for env'' w'' u
  proof -
    obtain new where new: "tbl_alerts (snd (EvaluateAlerts env'' d w'')) = tbl_alerts w'' @ new"
      and guard: "\<forall>a \<in> set new. DomainID a = ID d \<and>
            0 < time_Until (clock w'') (ExpirationDate d) \<and>
            time_Until (clock w'') (ExpirationDate d) \<le> Threshold a"
      using EvaluateAlerts_new [of env'' d w''] by blast
    have "filter (\<lambda>a. DomainID a = ID d \<and> Threshold a = u) new = []"
      using guard that by (auto simp: filter_empty_conv)
    then show ?thesis
      using new by (simp add: records_for_def)
  qed
  show ?thesis
    using ok one again never unfolding w1_def w1'_def by blast
qed

lemma fault_free_quiet_env: "fault_free quiet_env"
  by (simp add: fault_free_def quiet_env_def)

lemma fresh_world_config:
  "fst (ConfigRepository_Get quiet_env fresh_world) =
     Inr \<lparr>ConfigID = 1, MonitoringInterval = 24 * Hour,
          AlertThresholds = [90 * 24 * Hour, 60 * 24 * Hour, 30 * 24 * Hour, 7 * 24 * Hour],
          GoogleChatWebhook = [], RetentionPeriod = 90 * 24 * Hour,
          ConfigUpdatedAt = 1764806400000000000\<rparr>"
  by (simp add: ConfigRepository_Get_def db_Get_def db_call_def quiet_env_def fresh_world_def
      ConfigRepository_create_def createDefaultConfig_def SetAlertThresholds_def
      SetRetentionPeriod_def SetMonitoringInterval_def Let_def)

lemma test_domain_remaining:
  "time_Until (clock fresh_world) (ExpirationDate test_domain) = 25 * 24 * Hour"
  by (simp add: time_Until_def time_Sub_def maxDuration_def minDuration_def Let_def
      fresh_world_def test_domain_def Hour_def)

theorem EvaluateAlerts_alert_once_witness:
  "fault_free quiet_env \<and>
   30 * 24 * Hour \<in> set [90 * 24 * Hour, 60 * 24 * Hour, 30 * 24 * Hour, 7 * 24 * Hour] \<and>
   0 < time_Until (clock fresh_world) (ExpirationDate test_domain) \<and>
   time_Until (clock fresh_world) (ExpirationDate test_domain) \<le> 30 * 24 * Hour \<and>
   records_for (ID test_domain) (30 * 24 * Hour) fresh_world = [] \<and>
   fst (EvaluateAlerts quiet_env test_domain fresh_world) = None \<and>
   length (records_for (ID test_domain) (30 * 24 * Hour)
     (snd (EvaluateAlerts quiet_env test_domain fresh_world))) = 1 \<and>
   records_for (ID test_domain) (30 * 24 * Hour)
     (snd (EvaluateAlerts quiet_env test_domain
        ((snd (EvaluateAlerts quiet_env test_domain fresh_world))
           \<lparr>clock := 1764892800000000000\<rparr>))) =
   records_for (ID test_domain) (30 * 24 * Hour)
     (snd (EvaluateAlerts quiet_env test_domain fresh_world))"
proof -
  have get: "ConfigRepository_Get quiet_env fresh_world =
      (Inr \<lparr>ConfigID = 1, MonitoringInterval = 24 * Hour,
          AlertThresholds = [90 * 24 * Hour, 60 * 24 * Hour, 30 * 24 * Hour, 7 * 24 * Hour],
          GoogleChatWebhook = [], RetentionPeriod = 90 * 24 * Hour,
          ConfigUpdatedAt = 1764806400000000000\<rparr>,
       snd (ConfigRepository_Get quiet_env fresh_world))"
    using fresh_world_config by (metis prod.collapse)
  have mem: "30 * 24 * Hour \<in> set (GetAlertThresholds \<lparr>ConfigID = 1, MonitoringInterval = 24 * Hour,
          AlertThresholds = [90 * 24 * Hour, 60 * 24 * Hour, 30 * 24 * Hour, 7 * 24 * Hour],
          GoogleChatWebhook = [], RetentionPeriod = 90 * 24 * Hour,
          ConfigUpdatedAt = 1764806400000000000\<rparr>)"
    by (simp add: GetAlertThresholds_def)
  have pos: "0 < time_Until (clock fresh_world) (ExpirationDate test_domain)"
    and le: "time_Until (clock fresh_world) (ExpirationDate test_domain) \<le> 30 * 24 * Hour"
    by (simp_all add: test_domain_remaining Hour_def)
  have none: "records_for (ID test_domain) (30 * 24 * Hour) fresh_world = []"
    by (simp add: records_for_def fresh_world_def)
  show ?thesis
    using EvaluateAlerts_alert_once [OF fault_free_quiet_env fault_free_quiet_env get mem pos le none,
        of "1764892800000000000"]
      fault_free_quiet_env pos le none
    by simp
qed

subsection \<open>The steps of the loop\<close>

lemma evaluate_thresholds_step:
  assumes "remaining \<le> threshold \<and> remaining > 0"
  shows "evaluate_thresholds env d config remaining (threshold # thresholds) w =
     (case HasAlertBeenSent env (ID d) threshold w of
        (Inl err, w1) \<Rightarrow> (Some (Errorf_w ''failed to check if alert was sent: '' err), w1)
      | (Inr alreadySent, w1) \<Rightarrow>
          if alreadySent then evaluate_thresholds env d config remaining thresholds w1
          else
            (case SendAlert env (new_alert d threshold (clock w1)) (GoogleChatWebhook config) w1 of
               (sendErr, w2) \<Rightarrow>
                 (case AlertRepository_Create env
                         (with_outcome sendErr (new_alert d threshold (clock w1))) w2 of
                    (Some err, w3) \<Rightarrow> (Some (Errorf_w ''failed to save alert: '' err), w3)
                  | (None, w3) \<Rightarrow> evaluate_thresholds env d config remaining thresholds w3)))"
  using assms
  by (simp add: Let_def new_alert_def with_outcome_def split: prod.splits sum.splits)

lemma evaluate_thresholds_skip:
  "\<not> (remaining \<le> threshold \<and> remaining > 0) \<Longrightarrow>
     evaluate_thresholds env d config remaining (threshold # thresholds) w =
     evaluate_thresholds env d config remaining thresholds w"
  by auto

lemma evaluate_thresholds_append:
  "evaluate_thresholds env d config remaining (xs @ ys) w =
     (case evaluate_thresholds env d config remaining xs w of
        (Some err, w') \<Rightarrow> (Some err, w')
      | (None, w') \<Rightarrow> evaluate_thresholds env d config remaining ys w')"
proof (induction xs arbitrary: w)
  case Nil
  then show ?case by simp
next
  case (Cons x xs)
  show ?case
  proof (cases "remaining \<le> x \<and> remaining > 0")
    case False
    then show ?thesis
      using Cons.IH by (simp del: evaluate_thresholds.simps add: evaluate_thresholds_skip)
  next
    case True
    show ?thesis
      unfolding append_Cons evaluate_thresholds_step [OF True]
      by (simp add: Cons.IH split: prod.splits sum.splits option.splits)
  qed
qed

lemma db_trace [simp]:
  "trace (snd (db_call env w)) = trace w"
  "trace (snd (db_Get env row w)) = trace w"
  by (simp_all add: db_call_def db_Get_def split: option.splits)

lemma HasAlertBeenSent_trace [simp]: "trace (snd (HasAlertBeenSent env i t w)) = trace w"
  by (simp add: HasAlertBeenSent_def db_Get_def db_call_def split: option.splits)

lemma Create_trace [simp]: "trace (snd (AlertRepository_Create env alert w)) = trace w"
  by (simp add: AlertRepository_Create_def db_Exec_def db_call_def Let_def split: option.splits)

lemma ConfigRepository_Get_trace [simp]: "trace (snd (ConfigRepository_Get env w)) = trace w"
  by (simp add: ConfigRepository_Get_def ConfigRepository_create_def db_Get_def db_call_def Let_def
      split: option.splits)

lemma HasAlertBeenSent_alerts [simp]: "tbl_alerts (snd (HasAlertBeenSent env i t w)) = tbl_alerts w"
  using HasAlertBeenSent_frame(1) [of env i t w] by (simp add: store_def)

subsection \<open>The first error ends the evaluation\<close>

text \<open>
  C10. When the configuration read fails, \<open>EvaluateAlerts\<close> returns that error, wrapped, in
  the state the read left: no threshold was examined. When the thresholds \<open>before\<close> were
  handled without error and the deduplication query of the next threshold \<open>t\<close> fails, or
  the insert of its new record fails, the call returns that error, wrapped, in the state
  the failing operation left: the result does not depend on the thresholds \<open>after\<close>, none
  of which is examined or alerted. The records persisted for the earlier thresholds are
  still in the table (the table only grows).
\<close>

theorem EvaluateAlerts_stops_at_first_error:
  fixes env :: env and d :: Domain and w :: world
  defines "remaining \<equiv> time_Until (clock w) (ExpirationDate d)"
  shows
    "(\<forall>err w1. ConfigRepository_Get env w = (Inl err, w1) \<longrightarrow>
        EvaluateAlerts env d w = (Some (Errorf_w ''failed to get config: '' err), w1) \<and>
        tbl_alerts w1 = tbl_alerts w \<and> trace w1 = trace w) \<and>
     (\<forall>config w0 before t after w1.
        ConfigRepository_Get env w = (Inr config, w0) \<and>
        GetAlertThresholds config = before @ t # after \<and>
        evaluate_thresholds env d config remaining before w0 = (None, w1) \<and>
        0 < remaining \<and> remaining \<le> t \<longrightarrow>
        (\<exists>kept. tbl_alerts w1 = tbl_alerts w @ kept) \<and>
        (\<forall>err w2. HasAlertBeenSent env (ID d) t w1 = (Inl err, w2) \<longrightarrow>
           EvaluateAlerts env d w =
             (Some (Errorf_w ''failed to check if alert was sent: '' err), w2) \<and>
           tbl_alerts w2 = tbl_alerts w1 \<and> trace w2 = trace w1) \<and>
        (\<forall>w2 sendErr w3 err w4.
           HasAlertBeenSent env (ID d) t w1 = (Inr False, w2) \<and>
           SendAlert env (new_alert d t (clock w2)) (GoogleChatWebhook config) w2 = (sendErr, w3) \<and>
           AlertRepository_Create env (with_outcome sendErr (new_alert d t (clock w2))) w3 =
             (Some err, w4) \<longrightarrow>
           EvaluateAlerts env d w = (Some (Errorf_w ''failed to save alert: '' err), w4) \<and>
           tbl_alerts w4 = tbl_alerts w1 \<and> trace w4 = trace w3))"
proof (intro conjI allI impI)
  fix err w1
  assume g: "ConfigRepository_Get env w = (Inl err, w1)"
  show "EvaluateAlerts env d w = (Some (Errorf_w ''failed to get config: '' err), w1)"
    using g by (simp add: EvaluateAlerts_def)
  show "tbl_alerts w1 = tbl_alerts w"
    using ConfigRepository_Get_frame(1) [of env w] g by simp
  show "trace w1 = trace w"
    using ConfigRepository_Get_trace [of env w] g by simp
next
  fix config w0 before t after w1
  assume a: "ConfigRepository_Get env w = (Inr config, w0) \<and>
        GetAlertThresholds config = before @ t # after \<and>
        evaluate_thresholds env d config remaining before w0 = (None, w1) \<and>
        0 < remaining \<and> remaining \<le> t"
  have w0: "tbl_alerts w0 = tbl_alerts w" "clock w0 = clock w"
    using ConfigRepository_Get_frame [of env w] a by simp_all
  have run: "EvaluateAlerts env d w =
      evaluate_thresholds env d config remaining (t # after) w1"
    using a w0 by (simp add: EvaluateAlerts_def remaining_def evaluate_thresholds_append)
  have guard: "remaining \<le> t \<and> remaining > 0"
    using a by simp
  show "\<exists>kept. tbl_alerts w1 = tbl_alerts w @ kept"
    using evaluate_thresholds_new [of env d config remaining before w0] a w0 by auto
  {
    fix err w2
    assume h: "HasAlertBeenSent env (ID d) t w1 = (Inl err, w2)"
    show "EvaluateAlerts env d w =
             (Some (Errorf_w ''failed to check if alert was sent: '' err), w2)"
      unfolding run evaluate_thresholds_step [OF guard] using h by simp
    show "tbl_alerts w2 = tbl_alerts w1"
      using HasAlertBeenSent_alerts [of env "ID d" t w1] h by simp
    show "trace w2 = trace w1"
      using HasAlertBeenSent_trace [of env "ID d" t w1] h by simp
  }
  {
    fix w2 sendErr w3 err w4
    assume h: "HasAlertBeenSent env (ID d) t w1 = (Inr False, w2) \<and>
           SendAlert env (new_alert d t (clock w2)) (GoogleChatWebhook config) w2 = (sendErr, w3) \<and>
           AlertRepository_Create env (with_outcome sendErr (new_alert d t (clock w2))) w3 =
             (Some err, w4)"
    show "EvaluateAlerts env d w = (Some (Errorf_w ''failed to save alert: '' err), w4)"
      unfolding run evaluate_thresholds_step [OF guard] using h by simp
    have "tbl_alerts w2 = tbl_alerts w1"
      using HasAlertBeenSent_alerts [of env "ID d" t w1] h by simp
    moreover have "tbl_alerts w3 = tbl_alerts w2"
      using SendAlert_alerts [of env "new_alert d t (clock w2)" "GoogleChatWebhook config" w2] h
      by simp
    moreover have "tbl_alerts w4 = tbl_alerts w3"
      using Create_alerts [of env "with_outcome sendErr (new_alert d t (clock w2))" w3] h
      by auto
    ultimately show "tbl_alerts w4 = tbl_alerts w1" by simp
    show "trace w4 = trace w3"
      using Create_trace [of env "with_outcome sendErr (new_alert d t (clock w2))" w3] h by simp
  }
qed

lemmas sample_defs =
  faulty_env_def quiet_env_def fresh_world_def test_domain_def default_config_def

lemmas store_defs =
  ConfigRepository_Get_def ConfigRepository_create_def createDefaultConfig_def
  SetAlertThresholds_def SetRetentionPeriod_def SetMonitoringInterval_def
  HasAlertBeenSent_def AlertRepository_Create_def db_Get_def db_Exec_def db_call_def

lemma faulty_get:
  "2 \<le> k \<Longrightarrow> ConfigRepository_Get (faulty_env k) fresh_world =
     (Inr default_config, fresh_world\<lparr>ops := 2, tbl_config := Some default_config\<rparr>)"
  by (simp add: sample_defs store_defs Let_def)

lemma sample_remaining:
  "time_Until (clock fresh_world) (ExpirationDate test_domain) = 25 * 24 * Hour"
  by (simp add: time_Until_def time_Sub_def maxDuration_def minDuration_def Let_def
      fresh_world_def test_domain_def Hour_def)

lemma faulty_first_threshold:
  "5 \<le> k \<Longrightarrow>
   fst (evaluate_thresholds (faulty_env k) test_domain default_config (25 * 24 * Hour)
          [90 * 24 * Hour] (fresh_world\<lparr>ops := 2, tbl_config := Some default_config\<rparr>)) = None \<and>
   map Threshold (tbl_alerts (snd (evaluate_thresholds (faulty_env k) test_domain default_config
          (25 * 24 * Hour) [90 * 24 * Hour]
          (fresh_world\<lparr>ops := 2, tbl_config := Some default_config\<rparr>)))) = [90 * 24 * Hour] \<and>
   ops (snd (evaluate_thresholds (faulty_env k) test_domain default_config
          (25 * 24 * Hour) [90 * 24 * Hour]
          (fresh_world\<lparr>ops := 2, tbl_config := Some default_config\<rparr>))) = 5"
  by (simp add: sample_defs store_defs SendAlert_def SetThreshold_def Let_def Hour_def)

theorem EvaluateAlerts_stops_at_first_error_witness:
  "fst (EvaluateAlerts (faulty_env 0) test_domain fresh_world) =
     Some (Errorf_w ''failed to get config: ''
            (Errorf_w ''failed to get config: '' (New ''database is locked''))) \<and>
   tbl_alerts (snd (EvaluateAlerts (faulty_env 0) test_domain fresh_world)) = [] \<and>
   fst (EvaluateAlerts (faulty_env 5) test_domain fresh_world) =
     Some (Errorf_w ''failed to check if alert was sent: ''
            (Errorf_w ''failed to check if alert was sent: '' (New ''database is locked''))) \<and>
   map Threshold (tbl_alerts (snd (EvaluateAlerts (faulty_env 5) test_domain fresh_world))) =
     [90 * 24 * Hour] \<and>
   fst (EvaluateAlerts (faulty_env 4) test_domain fresh_world) =
     Some (Errorf_w ''failed to save alert: ''
            (Errorf_w ''failed to create alert: '' (New ''database is locked''))) \<and>
   tbl_alerts (snd (EvaluateAlerts (faulty_env 4) test_domain fresh_world)) = []"
proof -
  let ?locked = "New ''database is locked''"
  let ?W0 = "fresh_world\<lparr>ops := 2, tbl_config := Some default_config\<rparr>"
  have rem: "0 < time_Until (clock fresh_world) (ExpirationDate test_domain)"
    "time_Until (clock fresh_world) (ExpirationDate test_domain) \<le> 90 * 24 * Hour"
    "time_Until (clock fresh_world) (ExpirationDate test_domain) \<le> 60 * 24 * Hour"
    by (simp_all add: sample_remaining Hour_def)
  have thr: "GetAlertThresholds default_config = [] @ (90 * 24 * Hour) # [60 * 24 * Hour, 30 * 24 * Hour, 7 * 24 * Hour]"
    "GetAlertThresholds default_config = [90 * 24 * Hour] @ (60 * 24 * Hour) # [30 * 24 * Hour, 7 * 24 * Hour]"
    by (simp_all add: GetAlertThresholds_def default_config_def)
  \<comment> \<open>the configuration read fails\<close>
  have g0: "ConfigRepository_Get (faulty_env 0) fresh_world =
      (Inl (Errorf_w ''failed to get config: '' ?locked), fresh_world\<lparr>ops := 1\<rparr>)"
    by (simp add: sample_defs store_defs)
  note c0 = EvaluateAlerts_stops_at_first_error [of "faulty_env 0" fresh_world test_domain,
      THEN conjunct1, rule_format, OF g0]
  have r0: "fst (EvaluateAlerts (faulty_env 0) test_domain fresh_world) =
     Some (Errorf_w ''failed to get config: '' (Errorf_w ''failed to get config: '' ?locked))"
    "tbl_alerts (snd (EvaluateAlerts (faulty_env 0) test_domain fresh_world)) = []"
    using c0 by (simp_all add: fresh_world_def)
  \<comment> \<open>the deduplication query of the second threshold fails\<close>
  let ?W1 = "snd (evaluate_thresholds (faulty_env 5) test_domain default_config (25 * 24 * Hour)
          [90 * 24 * Hour] ?W0)"
  have pre5: "evaluate_thresholds (faulty_env 5) test_domain default_config
      (time_Until (clock fresh_world) (ExpirationDate test_domain)) [90 * 24 * Hour] ?W0 = (None, ?W1)"
    using faulty_first_threshold [of 5] by (simp add: sample_remaining prod_eq_iff)
  have h5: "HasAlertBeenSent (faulty_env 5) (ID test_domain) (60 * 24 * Hour) ?W1 =
      (Inl (Errorf_w ''failed to check if alert was sent: '' ?locked), ?W1\<lparr>ops := 6\<rparr>)"
    using faulty_first_threshold [of 5]
    by (simp add: HasAlertBeenSent_def db_Get_def db_call_def faulty_env_def)
  note c5 = EvaluateAlerts_stops_at_first_error [of "faulty_env 5" fresh_world test_domain,
      THEN conjunct2, rule_format,
      OF conjI [OF faulty_get [of 5, simplified] conjI [OF thr(2) conjI [OF pre5 conjI [OF rem(1) rem(3)]]]],
      THEN conjunct2, THEN conjunct1, rule_format, OF h5]
  have r5: "fst (EvaluateAlerts (faulty_env 5) test_domain fresh_world) =
     Some (Errorf_w ''failed to check if alert was sent: ''
            (Errorf_w ''failed to check if alert was sent: '' ?locked))"
    "map Threshold (tbl_alerts (snd (EvaluateAlerts (faulty_env 5) test_domain fresh_world))) =
     [90 * 24 * Hour]"
    using c5 faulty_first_threshold [of 5] by simp_all
  \<comment> \<open>the insert of the first record fails\<close>
  let ?alert = "new_alert test_domain (90 * 24 * Hour) (clock (?W0\<lparr>ops := 3\<rparr>))"
  let ?sendErr = "Some (New ''no webhook URL configured'')"
  have pre4: "evaluate_thresholds (faulty_env 4) test_domain default_config
      (time_Until (clock fresh_world) (ExpirationDate test_domain)) [] ?W0 = (None, ?W0)"
    by simp
  have h4: "HasAlertBeenSent (faulty_env 4) (ID test_domain) (90 * 24 * Hour) ?W0 =
      (Inr False, ?W0\<lparr>ops := 3\<rparr>) \<and>
    SendAlert (faulty_env 4) ?alert (GoogleChatWebhook default_config) (?W0\<lparr>ops := 3\<rparr>) =
      (?sendErr, ?W0\<lparr>ops := 3\<rparr>) \<and>
    AlertRepository_Create (faulty_env 4) (with_outcome ?sendErr ?alert) (?W0\<lparr>ops := 3\<rparr>) =
      (Some (Errorf_w ''failed to create alert: '' ?locked), ?W0\<lparr>ops := 5\<rparr>)"
    by (simp add: sample_defs store_defs SendAlert_def new_alert_def with_outcome_def
        SetThreshold_def Let_def)
  note c4 = EvaluateAlerts_stops_at_first_error [of "faulty_env 4" fresh_world test_domain,
      THEN conjunct2, rule_format,
      OF conjI [OF faulty_get [of 4, simplified] conjI [OF thr(1) conjI [OF pre4 conjI [OF rem(1) rem(2)]]]],
      THEN conjunct2, THEN conjunct2, rule_format, OF h4]
  have r4: "fst (EvaluateAlerts (faulty_env 4) test_domain fresh_world) =
     Some (Errorf_w ''failed to save alert: '' (Errorf_w ''failed to create alert: '' ?locked))"
    "tbl_alerts (snd (EvaluateAlerts (faulty_env 4) test_domain fresh_world)) = []"
    using c4 by (simp_all add: fresh_world_def)
  show ?thesis
    using r0 r5 r4 by simp
qed

lemma Create_fresh:
  "fault_free env \<Longrightarrow> AlertID a = [] \<Longrightarrow>
     AlertRepository_Create env a w =
       (None, w\<lparr>ops := Suc (Suc (ops w)),
                tbl_alerts := tbl_alerts w @ [a\<lparr>AlertID := uuid_New env (ops w)\<rparr>]\<rparr>)"
  by (simp add: AlertRepository_Create_def db_Exec_def db_call_def fault_free_def)

lemma evaluate_thresholds_no_webhook:
  assumes ff: "fault_free env" and nw: "GoogleChatWebhook config = []"
    and dist: "distinct thresholds"
  shows "\<exists>new. tbl_alerts (snd (evaluate_thresholds env d config remaining thresholds w)) =
                 tbl_alerts w @ new \<and>
         erase_ids new =
           map (undelivered d (clock w))
             (filter (\<lambda>t. 0 < remaining \<and> remaining \<le> t \<and> records_for (ID d) t w = [])
                thresholds) \<and>
         fst (evaluate_thresholds env d config remaining thresholds w) = None \<and>
         trace (snd (evaluate_thresholds env d config remaining thresholds w)) = trace w \<and>
         clock (snd (evaluate_thresholds env d config remaining thresholds w)) = clock w"
  using dist
proof (induction thresholds arbitrary: w)
  case Nil
  then show ?case by (simp add: erase_ids_def)
next
  case (Cons threshold thresholds)
  then have dist': "distinct thresholds" and notin: "threshold \<notin> set thresholds"
    by simp_all
  show ?case
  proof (cases "remaining \<le> threshold \<and> remaining > 0")
    case False
    then show ?thesis
      using Cons.IH [OF dist', of w] by auto
  next
    case guard: True
    show ?thesis
    proof (cases "records_for (ID d) threshold w = []")
      case False
      have step: "evaluate_thresholds env d config remaining (threshold # thresholds) w =
                  evaluate_thresholds env d config remaining thresholds (w\<lparr>ops := Suc (ops w)\<rparr>)"
        unfolding evaluate_thresholds_step [OF guard]
        using False by (simp add: HasAlertBeenSent_fault_free [OF ff])
      show ?thesis
        unfolding step
        using Cons.IH [OF dist', of "w\<lparr>ops := Suc (ops w)\<rparr>"] False guard
        by simp
    next
      case fresh: True
      define a where "a = (new_alert d threshold (clock w))
          \<lparr>Success := False, ErrorMessage := ''no webhook URL configured'',
           AlertID := uuid_New env (Suc (ops w))\<rparr>"
      define w3 where "w3 = w\<lparr>ops := Suc (Suc (Suc (ops w))), tbl_alerts := tbl_alerts w @ [a]\<rparr>"
      have step: "evaluate_thresholds env d config remaining (threshold # thresholds) w =
                  evaluate_thresholds env d config remaining thresholds w3"
        unfolding evaluate_thresholds_step [OF guard]
        using fresh nw
        by (simp add: HasAlertBeenSent_fault_free [OF ff] SendAlert_def with_outcome_def
            Create_fresh [OF ff] new_alert_def SetThreshold_def a_def w3_def)
      have era: "erase_ids [a] = [undelivered d (clock w) threshold]"
        by (simp add: erase_ids_def a_def new_alert_def SetThreshold_def undelivered_def)
      have rec3: "records_for (ID d) t w3 = [] \<longleftrightarrow> records_for (ID d) t w = []"
        if "t \<in> set thresholds" for t
        using that notin
        by (auto simp: records_for_def w3_def a_def new_alert_def SetThreshold_def)
      have filt: "filter (\<lambda>t. 0 < remaining \<and> remaining \<le> t \<and> records_for (ID d) t w3 = []) thresholds =
                  filter (\<lambda>t. 0 < remaining \<and> remaining \<le> t \<and> records_for (ID d) t w = []) thresholds"
        by (rule filter_cong) (auto simp: rec3)
      from Cons.IH [OF dist', of w3] obtain new where
        new: "tbl_alerts (snd (evaluate_thresholds env d config remaining thresholds w3)) =
                 tbl_alerts w3 @ new"
          "erase_ids new =
           map (undelivered d (clock w3))
             (filter (\<lambda>t. 0 < remaining \<and> remaining \<le> t \<and> records_for (ID d) t w3 = [])
                thresholds)"
          "fst (evaluate_thresholds env d config remaining thresholds w3) = None"
          "trace (snd (evaluate_thresholds env d config remaining thresholds w3)) = trace w3"
          "clock (snd (evaluate_thresholds env d config remaining thresholds w3)) = clock w3"
        by blast
      have w3s: "clock w3 = clock w" "trace w3 = trace w" "tbl_alerts w3 = tbl_alerts w @ [a]"
        by (simp_all add: w3_def)
      have "erase_ids (a # new) =
           map (undelivered d (clock w))
             (filter (\<lambda>t. 0 < remaining \<and> remaining \<le> t \<and> records_for (ID d) t w = [])
                (threshold # thresholds))"
        using era new(2) guard fresh filt w3s by (simp add: erase_ids_def)
      then show ?thesis
        unfolding step using new w3s
        by (intro exI [of _ "a # new"]) simp
    qed
  qed
qed

lemma EvaluateAlerts_keeps_existing:
  assumes "fault_free env" and "records_for i t w \<noteq> []"
  shows "records_for i t (snd (EvaluateAlerts env d w)) = records_for i t w"
proof -
  obtain config where "fst (ConfigRepository_Get env w) = Inr config"
    using ConfigRepository_Get_fault_free [OF assms(1)] by blast
  then have get: "ConfigRepository_Get env w = (Inr config, snd (ConfigRepository_Get env w))"
    by (metis prod.collapse)
  have len: "length (records_for i t (snd (EvaluateAlerts env d w))) = length (records_for i t w)"
    using EvaluateAlerts_fault_free(2) [OF assms(1) get, of i t d] assms(2) by simp
  obtain new where "tbl_alerts (snd (EvaluateAlerts env d w)) = tbl_alerts w @ new"
    using EvaluateAlerts_new [of env d w] by blast
  then have "records_for i t (snd (EvaluateAlerts env d w)) =
        records_for i t w @ filter (\<lambda>a. DomainID a = i \<and> Threshold a = t) new"
    by (simp add: records_for_def)
  with len show ?thesis by simp
qed

lemma SendAlert_no_webhook:
  "SendAlert env alert [] w = (Some (New ''no webhook URL configured''), w)"
  by (simp add: SendAlert_def)

subsection \<open>The scenario without a webhook\<close>

text \<open>
  C3, as the code has it. A domain expiring in 25 days, thresholds of 90, 60, 30 and 7
  days, no webhook URL, no failing round trip to the store: one evaluation returns no
  error and appends one record for each of the thresholds 90, 60 and 30 days that had no
  record yet, in that order (three on a store without records of the domain, exactly one,
  for 30 days, when 90 and 60 days were alerted before) and none for 7 days; every new
  record has \<open>Success = False\<close> and the error message \<open>no webhook URL configured\<close>.
  \<open>SendAlert\<close> returns that error at once, and the evaluation posts nothing and sleeps
  never. A later evaluation leaves the records of these three thresholds as they are.
\<close>

theorem EvaluateAlerts_no_webhook_scenario:
  assumes "fault_free env" and "fault_free env'"
    and "ConfigRepository_Get env w = (Inr config, w0)"
    and "GetAlertThresholds config =
           [90 * 24 * Hour, 60 * 24 * Hour, 30 * 24 * Hour, 7 * 24 * Hour]"
    and "GoogleChatWebhook config = []"
    and "time_Until (clock w) (ExpirationDate d) = 25 * 24 * Hour"
    and "t \<in> {90 * 24 * Hour, 60 * 24 * Hour, 30 * 24 * Hour}"
  shows "fst (EvaluateAlerts env d w) = None \<and>
     (\<exists>new. tbl_alerts (snd (EvaluateAlerts env d w)) = tbl_alerts w @ new \<and>
        erase_ids new =
          map (undelivered d (clock w))
            (filter (\<lambda>t. records_for (ID d) t w = [])
               [90 * 24 * Hour, 60 * 24 * Hour, 30 * 24 * Hour])) \<and>
     trace (snd (EvaluateAlerts env d w)) = trace w \<and>
     SendAlert env alert (GoogleChatWebhook config) w' = (Some (New ''no webhook URL configured''), w') \<and>
     records_for (ID d) t
       (snd (EvaluateAlerts env' d ((snd (EvaluateAlerts env d w))\<lparr>clock := now'\<rparr>))) =
     records_for (ID d) t (snd (EvaluateAlerts env d w))"
proof -
  have w0: "tbl_alerts w0 = tbl_alerts w" "clock w0 = clock w" "trace w0 = trace w"
    using ConfigRepository_Get_frame [of env w] ConfigRepository_Get_trace [of env w] assms(3)
    by simp_all
  then have rec0: "records_for i u w0 = records_for i u w" for i u
    by (simp add: records_for_def)
  have run: "EvaluateAlerts env d w =
      evaluate_thresholds env d config (25 * 24 * Hour)
        [90 * 24 * Hour, 60 * 24 * Hour, 30 * 24 * Hour, 7 * 24 * Hour] w0"
    using assms(3,4,6) w0 by (simp add: EvaluateAlerts_def del: evaluate_thresholds.simps)
  have dist: "distinct [90 * 24 * Hour, 60 * 24 * Hour, 30 * 24 * Hour, 7 * 24 * Hour]"
    by (simp add: Hour_def)
  have filt: "filter (\<lambda>t. 0 < 25 * 24 * Hour \<and> 25 * 24 * Hour \<le> t \<and> records_for (ID d) t w0 = [])
                 [90 * 24 * Hour, 60 * 24 * Hour, 30 * 24 * Hour, 7 * 24 * Hour] =
              filter (\<lambda>t. records_for (ID d) t w = [])
                 [90 * 24 * Hour, 60 * 24 * Hour, 30 * 24 * Hour]"
    by (simp add: Hour_def rec0)
  from evaluate_thresholds_no_webhook [OF assms(1) assms(5) dist, of d "25 * 24 * Hour" w0]
  have first: "fst (EvaluateAlerts env d w) = None"
    and new: "\<exists>new. tbl_alerts (snd (EvaluateAlerts env d w)) = tbl_alerts w @ new \<and>
        erase_ids new =
          map (undelivered d (clock w))
            (filter (\<lambda>t. records_for (ID d) t w = [])
               [90 * 24 * Hour, 60 * 24 * Hour, 30 * 24 * Hour])"
    and tr: "trace (snd (EvaluateAlerts env d w)) = trace w"
    unfolding run filt using w0 by auto
  have mem: "t \<in> set (GetAlertThresholds config)"
    using assms(4,7) by auto
  have guard: "0 < time_Until (clock w) (ExpirationDate d)"
    "time_Until (clock w) (ExpirationDate d) \<le> t"
    using assms(6,7) by (auto simp: Hour_def)
  have "length (records_for (ID d) t (snd (EvaluateAlerts env d w))) =
        length (records_for (ID d) t w) + (if records_for (ID d) t w = [] then 1 else 0)"
    using EvaluateAlerts_fault_free(2) [OF assms(1) assms(3), of "ID d" t d] mem guard by simp
  then have ex: "records_for (ID d) t ((snd (EvaluateAlerts env d w))\<lparr>clock := now'\<rparr>) \<noteq> []"
    by (cases "records_for (ID d) t w = []") auto
  have again: "records_for (ID d) t
       (snd (EvaluateAlerts env' d ((snd (EvaluateAlerts env d w))\<lparr>clock := now'\<rparr>))) =
     records_for (ID d) t (snd (EvaluateAlerts env d w))"
    using EvaluateAlerts_keeps_existing [OF assms(2) ex, of d] by simp
  show ?thesis
    using first new tr again assms(5) by (simp add: SendAlert_no_webhook)
qed

lemma quiet_get:
  "ConfigRepository_Get quiet_env fresh_world =
     (Inr default_config, fresh_world\<lparr>ops := 2, tbl_config := Some default_config\<rparr>)"
  by (simp add: sample_defs store_defs Let_def)

text \<open>
  On the sample state the evaluation creates three records, for 90, 60 and 30 days, not
  one, and their error message is not \<open>no endpoint configured\<close>.
\<close>

theorem no_webhook_scenario_counterexample:
  "map Threshold (tbl_alerts (snd (EvaluateAlerts quiet_env test_domain fresh_world))) =
     [90 * 24 * Hour, 60 * 24 * Hour, 30 * 24 * Hour] \<and>
   map ErrorMessage (tbl_alerts (snd (EvaluateAlerts quiet_env test_domain fresh_world))) =
     [''no webhook URL configured'', ''no webhook URL configured'', ''no webhook URL configured''] \<and>
   \<not> (\<exists>a. tbl_alerts (snd (EvaluateAlerts quiet_env test_domain fresh_world)) = [a] \<and>
          Threshold a = 30 * 24 * Hour \<and> ErrorMessage a = ''no endpoint configured'')"
proof -
  have run: "EvaluateAlerts quiet_env test_domain fresh_world =
      evaluate_thresholds quiet_env test_domain default_config (25 * 24 * Hour)
        [90 * 24 * Hour, 60 * 24 * Hour, 30 * 24 * Hour, 7 * 24 * Hour]
        (fresh_world\<lparr>ops := 2, tbl_config := Some default_config\<rparr>)"
    using sample_remaining
    by (simp add: EvaluateAlerts_def quiet_get GetAlertThresholds_def default_config_def
        del: evaluate_thresholds.simps)
  have thr: "map Threshold (tbl_alerts (snd (EvaluateAlerts quiet_env test_domain fresh_world))) =
     [90 * 24 * Hour, 60 * 24 * Hour, 30 * 24 * Hour]"
    unfolding run
    by (simp add: sample_defs store_defs SendAlert_def SetThreshold_def Let_def Hour_def)
  have msg: "map ErrorMessage (tbl_alerts (snd (EvaluateAlerts quiet_env test_domain fresh_world))) =
     [''no webhook URL configured'', ''no webhook URL configured'', ''no webhook URL configured'']"
    unfolding run
    by (simp add: sample_defs store_defs SendAlert_def SetThreshold_def Let_def Hour_def)
  have "\<not> (\<exists>a. tbl_alerts (snd (EvaluateAlerts quiet_env test_domain fresh_world)) = [a] \<and>
          Threshold a = 30 * 24 * Hour \<and> ErrorMessage a = ''no endpoint configured'')"
    using thr by auto
  with thr msg show ?thesis by simp
qed

theorem EvaluateAlerts_no_webhook_scenario_witness:
  "fault_free quiet_env \<and>
   time_Until (clock fresh_world) (ExpirationDate test_domain) = 25 * 24 * Hour \<and>
   fst (EvaluateAlerts quiet_env test_domain fresh_world) = None \<and>
   erase_ids (tbl_alerts (snd (EvaluateAlerts quiet_env test_domain fresh_world))) =
     [undelivered test_domain 1764806400000000000 (90 * 24 * Hour),
      undelivered test_domain 1764806400000000000 (60 * 24 * Hour),
      undelivered test_domain 1764806400000000000 (30 * 24 * Hour)] \<and>
   trace (snd (EvaluateAlerts quiet_env test_domain fresh_world)) = [] \<and>
   records_for (ID test_domain) (30 * 24 * Hour)
     (snd (EvaluateAlerts quiet_env test_domain
        ((snd (EvaluateAlerts quiet_env test_domain fresh_world))\<lparr>clock := 1764892800000000000\<rparr>))) =
   records_for (ID test_domain) (30 * 24 * Hour)
     (snd (EvaluateAlerts quiet_env test_domain fresh_world))"
proof -
  have thr: "GetAlertThresholds default_config =
           [90 * 24 * Hour, 60 * 24 * Hour, 30 * 24 * Hour, 7 * 24 * Hour]"
    and nw: "GoogleChatWebhook default_config = []"
    by (simp_all add: GetAlertThresholds_def default_config_def)
  have t: "30 * 24 * Hour \<in> {90 * 24 * Hour, 60 * 24 * Hour, 30 * 24 * Hour}"
    by simp
  note s = EvaluateAlerts_no_webhook_scenario [OF fault_free_quiet_env fault_free_quiet_env
      quiet_get thr nw sample_remaining t, of "undelivered test_domain 0 0" fresh_world
      "1764892800000000000"]
  have none: "filter (\<lambda>t. records_for (ID test_domain) t fresh_world = [])
               [90 * 24 * Hour, 60 * 24 * Hour, 30 * 24 * Hour] =
              [90 * 24 * Hour, 60 * 24 * Hour, 30 * 24 * Hour]"
    by (simp add: records_for_def fresh_world_def)
  have "erase_ids (tbl_alerts (snd (EvaluateAlerts quiet_env test_domain fresh_world))) =
     [undelivered test_domain 1764806400000000000 (90 * 24 * Hour),
      undelivered test_domain 1764806400000000000 (60 * 24 * Hour),
      undelivered test_domain 1764806400000000000 (30 * 24 * Hour)]"
    using s unfolding none by (auto simp: fresh_world_def)
  moreover have "trace (snd (EvaluateAlerts quiet_env test_domain fresh_world)) = []"
    using s by (simp add: fresh_world_def)
  ultimately show ?thesis
    using s fault_free_quiet_env sample_remaining by simp
qed

section \<open>The WHOIS lookup\<close>

lemma queryWithTimeout_result:
  "fst (queryWithTimeout s env domainName w) = nth_attempt s env domainName (ops w)"
  by (simp add: nth_attempt_def queryWithTimeout_def query_def Let_def
      split: prod.splits sum.splits)

lemma queryWithTimeout_effect:
  "trace (snd (queryWithTimeout s env domainName w)) = trace w @ [Whois domainName]"
  "ops (snd (queryWithTimeout s env domainName w)) = Suc (ops w)"
  "clock (snd (queryWithTimeout s env domainName w)) \<ge> clock w"
  "store (snd (queryWithTimeout s env domainName w)) = store w"
  "sched (snd (queryWithTimeout s env domainName w)) = sched w"
  by (auto simp add: queryWithTimeout_def query_def Let_def store_def sched_def
      split: prod.splits sum.splits)

lemma wrap64_small: "- (2 ^ 63) \<le> x \<Longrightarrow> x < 2 ^ 63 \<Longrightarrow> wrap64 x = x"
  by (simp add: wrap64_def)

lemma Itoa_3: "Itoa 3 = ''3''"
  by code_simp

lemma QueryDomain_NewService:
  "QueryDomain NewService env domainName w =
     (case queryWithTimeout NewService env domainName w of
        (Inr info, w1) \<Rightarrow> (Inr info, w1)
      | (Inl e1, w1) \<Rightarrow>
          (case queryWithTimeout NewService env domainName (time_Sleep Second w1) of
             (Inr info, w2) \<Rightarrow> (Inr info, w2)
           | (Inl e2, w2) \<Rightarrow>
               (case queryWithTimeout NewService env domainName (time_Sleep (2 * Second) w2) of
                  (Inr info, w3) \<Rightarrow> (Inr info, w3)
                | (Inl e3, w3) \<Rightarrow> (Inl (Errorf_w ''failed after 3 attempts: '' e3), w3))))"
proof -
  have m: "maxRetries NewService = 3" "wrap64 2 = 2"
    by (simp_all add: NewService_def wrap64_def)
  have b: "wrap64 (Second * 2) = 2 * Second" "wrap64 (4 * Second) = 4 * Second"
    by (simp_all add: wrap64_def Second_def)
  have fin: "query_attempts NewService env domainName 3 bo (Some e) v =
      (Inl (Errorf_w ''failed after 3 attempts: '' e), v)" for bo e v
    by (subst query_attempts.simps) (simp add: m Itoa_3)
  have third: "query_attempts NewService env domainName 2 bo l v =
      (case queryWithTimeout NewService env domainName v of
         (Inr info, w3) \<Rightarrow> (Inr info, w3)
       | (Inl e3, w3) \<Rightarrow> (Inl (Errorf_w ''failed after 3 attempts: '' e3), w3))" for bo l v
    by (subst query_attempts.simps) (simp add: m fin split: prod.splits sum.splits)
  have second: "query_attempts NewService env domainName 1 (2 * Second) l v =
      (case queryWithTimeout NewService env domainName v of
         (Inr info, w2) \<Rightarrow> (Inr info, w2)
       | (Inl e2, w2) \<Rightarrow>
           query_attempts NewService env domainName 2 (4 * Second) (Some e2)
             (time_Sleep (2 * Second) w2))" for l v
    by (subst query_attempts.simps) (simp add: m b split: prod.splits sum.splits)
  have first: "query_attempts NewService env domainName 0 Second None w =
      (case queryWithTimeout NewService env domainName w of
         (Inr info, w1) \<Rightarrow> (Inr info, w1)
       | (Inl e1, w1) \<Rightarrow>
           query_attempts NewService env domainName 1 (2 * Second) (Some e1)
             (time_Sleep Second w1))"
    by (subst query_attempts.simps) (simp add: m b split: prod.splits sum.splits)
  show ?thesis
    unfolding QueryDomain_def first
    by (simp add: second third split: prod.splits sum.splits)
qed

lemma time_Sleep_effect [simp]:
  "ops (time_Sleep d w) = ops w"
  "trace (time_Sleep d w) = trace w @ [Sleep d]"
  "clock (time_Sleep d w) = clock w + max 0 d"
  by (simp_all add: time_Sleep_def)

text \<open>
  C4. With the service \<open>NewService\<close> builds, \<open>QueryDomain\<close> makes one, two or three
  lookups and no more: its trace is one lookup, or a lookup, a sleep of one second and a
  lookup, or those followed by a sleep of two seconds and a third lookup, and nothing
  follows the third. When the three attempts fail, it returns an error that wraps the
  error of the third attempt under the message \<open>failed after 3 attempts: ...\<close>, having
  slept one second after the first failure and two seconds after the second.
\<close>

theorem QueryDomain_three_attempts:
  fixes env :: env and domainName :: string and w :: world
  defines "w' \<equiv> snd (QueryDomain NewService env domainName w)"
  shows
    "trace w' \<in>
       {trace w @ [Whois domainName],
        trace w @ [Whois domainName, Sleep Second, Whois domainName],
        trace w @ [Whois domainName, Sleep Second, Whois domainName, Sleep (2 * Second),
                   Whois domainName]} \<and>
     (\<forall>e1 e2 e3.
        nth_attempt NewService env domainName (ops w) = Inl e1 \<and>
        nth_attempt NewService env domainName (ops w + 1) = Inl e2 \<and>
        nth_attempt NewService env domainName (ops w + 2) = Inl e3 \<longrightarrow>
        fst (QueryDomain NewService env domainName w) =
          Inl (Wrap (''failed after 3 attempts: '' @ Error e3) e3) \<and>
        trace w' =
          trace w @ [Whois domainName, Sleep Second, Whois domainName, Sleep (2 * Second),
                     Whois domainName] \<and>
        ops w' = ops w + 3 \<and>
        clock w + 3 * Second \<le> clock w')"
proof -
  obtain r1 w1 where q1: "queryWithTimeout NewService env domainName w = (r1, w1)"
    by (cases "queryWithTimeout NewService env domainName w")
  obtain r2 w2 where q2: "queryWithTimeout NewService env domainName (time_Sleep Second w1) = (r2, w2)"
    by (cases "queryWithTimeout NewService env domainName (time_Sleep Second w1)")
  obtain r3 w3 where q3: "queryWithTimeout NewService env domainName (time_Sleep (2 * Second) w2) = (r3, w3)"
    by (cases "queryWithTimeout NewService env domainName (time_Sleep (2 * Second) w2)")
  have f1: "r1 = nth_attempt NewService env domainName (ops w)"
    "trace w1 = trace w @ [Whois domainName]" "ops w1 = Suc (ops w)" "clock w \<le> clock w1"
    using queryWithTimeout_result [where s = NewService and env = env and domainName = domainName and w = w]
      queryWithTimeout_effect(1-3) [where s = NewService and env = env and domainName = domainName and w = w] q1 by simp_all
  have f2: "r2 = nth_attempt NewService env domainName (Suc (ops w))"
    "trace w2 = trace w @ [Whois domainName, Sleep Second, Whois domainName]"
    "ops w2 = Suc (Suc (ops w))" "clock w + Second \<le> clock w2"
    using queryWithTimeout_result [where s = NewService and env = env and domainName = domainName and w = "time_Sleep Second w1"]
      queryWithTimeout_effect(1-3) [where s = NewService and env = env and domainName = domainName and w = "time_Sleep Second w1"] q2 f1
    by (simp_all add: Second_def)
  have f3: "r3 = nth_attempt NewService env domainName (Suc (Suc (ops w)))"
    "trace w3 = trace w @ [Whois domainName, Sleep Second, Whois domainName, Sleep (2 * Second),
                     Whois domainName]"
    "ops w3 = Suc (Suc (Suc (ops w)))" "clock w + 3 * Second \<le> clock w3"
    using queryWithTimeout_result [where s = NewService and env = env and domainName = domainName and w = "time_Sleep (2 * Second) w2"]
      queryWithTimeout_effect(1-3) [where s = NewService and env = env and domainName = domainName and w = "time_Sleep (2 * Second) w2"] q3 f2
    by (simp_all add: Second_def)
  have run: "QueryDomain NewService env domainName w =
     (case r1 of Inr info \<Rightarrow> (Inr info, w1)
      | Inl e1 \<Rightarrow>
          (case r2 of Inr info \<Rightarrow> (Inr info, w2)
           | Inl e2 \<Rightarrow>
               (case r3 of Inr info \<Rightarrow> (Inr info, w3)
                | Inl e3 \<Rightarrow> (Inl (Errorf_w ''failed after 3 attempts: '' e3), w3))))"
    unfolding QueryDomain_NewService using q1 q2 q3
    by (simp split: sum.splits)
  have traces: "trace w' \<in>
       {trace w @ [Whois domainName],
        trace w @ [Whois domainName, Sleep Second, Whois domainName],
        trace w @ [Whois domainName, Sleep Second, Whois domainName, Sleep (2 * Second),
                   Whois domainName]}"
    unfolding w'_def run using f1(2) f2(2) f3(2)
    by (cases r1; cases r2; cases r3) simp_all
  have fail: "fst (QueryDomain NewService env domainName w) =
          Inl (Wrap (''failed after 3 attempts: '' @ Error e3) e3) \<and>
        trace w' =
          trace w @ [Whois domainName, Sleep Second, Whois domainName, Sleep (2 * Second),
                     Whois domainName] \<and>
        ops w' = ops w + 3 \<and>
        clock w + 3 * Second \<le> clock w'"
    if "nth_attempt NewService env domainName (ops w) = Inl e1 \<and>
        nth_attempt NewService env domainName (ops w + 1) = Inl e2 \<and>
        nth_attempt NewService env domainName (ops w + 2) = Inl e3" for e1 e2 e3
    unfolding w'_def run using that f1 f2 f3
    by (simp add: Errorf_w_def)
  show ?thesis
    using traces fail by blast
qed

lemma Itoa_30: "Itoa 30 = ''30''"
  by code_simp

lemma hanging_attempt:
  "nth_attempt NewService hanging_env domainName n = Inl (New ''WHOIS query timed out after 30s'')"
  by (simp add: nth_attempt_def queryWithTimeout_def query_def hanging_env_def quiet_env_def
      NewService_def Second_def Itoa_30 Let_def)

theorem QueryDomain_three_attempts_witness:
  "nth_attempt NewService hanging_env ''example.com'' (ops fresh_world) =
     Inl (New ''WHOIS query timed out after 30s'') \<and>
   fst (QueryDomain NewService hanging_env ''example.com'' fresh_world) =
     Inl (Wrap ''failed after 3 attempts: WHOIS query timed out after 30s''
            (New ''WHOIS query timed out after 30s'')) \<and>
   trace (snd (QueryDomain NewService hanging_env ''example.com'' fresh_world)) =
     [Whois ''example.com'', Sleep 1000000000, Whois ''example.com'', Sleep 2000000000,
      Whois ''example.com''] \<and>
   ops (snd (QueryDomain NewService hanging_env ''example.com'' fresh_world)) = 3"
  using QueryDomain_three_attempts [of hanging_env "''example.com''" fresh_world,
      THEN conjunct2, rule_format,
      OF conjI [OF hanging_attempt conjI [OF hanging_attempt hanging_attempt]]]
    hanging_attempt [of "''example.com''" "ops fresh_world"]
  by (simp add: fresh_world_def Second_def)

section \<open>The scheduler\<close>

subsection \<open>Arming a timer\<close>

lemma delay_max:
  "(if now < t then time_Until now t else 0) = max 0 (time_Until now t)"
  by (simp add: time_Until_def time_Sub_def maxDuration_def minDuration_def Let_def)

lemma time_Until_exact:
  "minDuration \<le> t - now \<Longrightarrow> t - now \<le> maxDuration \<Longrightarrow> time_Until now t = t - now"
  by (simp add: time_Until_def time_Sub_def Let_def)

lemma ScheduleDomain_result:
  "ScheduleDomain d w =
     w\<lparr>timers := stopped d w @ [armed d w],
       scheduledDomains := AList.update (ID d) (length (timers w)) (scheduledDomains w)\<rparr>"
  by (cases "map_of (scheduledDomains w) (ID d)")
     (auto simp add: ScheduleDomain_def timer_Stop_def time_AfterFunc_def stopped_def armed_def
        delay_max Let_def list_update_beyond not_less)

lemma length_stopped [simp]: "length (stopped d w) = length (timers w)"
  by (simp add: stopped_def split: option.splits)

lemma stopped_nth:
  "j < length (timers w) \<Longrightarrow>
     stopped d w ! j =
       (if map_of (scheduledDomains w) (ID d) = Some j
        then (timers w ! j)\<lparr>timer_active := False\<rparr> else timers w ! j)"
  by (auto simp: stopped_def split: option.splits)

lemma stopped_none_active:
  assumes "sched_inv w"
  shows "filter (\<lambda>t. timer_active t \<and> timer_domain t = ID d) (stopped d w) = []"
proof -
  have "\<not> (timer_active t \<and> timer_domain t = ID d)" if "t \<in> set (stopped d w)" for t
  proof -
    from that obtain j where j: "j < length (timers w)" "t = stopped d w ! j"
      by (auto simp: in_set_conv_nth)
    show ?thesis
    proof (cases "map_of (scheduledDomains w) (ID d) = Some j")
      case True
      then show ?thesis using j by (simp add: stopped_nth)
    next
      case False
      then have t: "t = timers w ! j" using j by (simp add: stopped_nth)
      show ?thesis
      proof
        assume "timer_active t \<and> timer_domain t = ID d"
        then have "map_of (scheduledDomains w) (ID d) = Some j"
          using assms j(1) t by (auto simp: sched_inv_def)
        with False show False by simp
      qed
    qed
  qed
  then show ?thesis by (simp add: filter_empty_conv)
qed

lemma ScheduleDomain_inv:
  assumes "sched_inv w"
  shows "sched_inv (ScheduleDomain d w)"
  unfolding sched_inv_def
proof (intro allI impI)
  fix i
  assume i: "i < length (timers (ScheduleDomain d w))"
    and act: "timer_active (timers (ScheduleDomain d w) ! i)"
  let ?n = "length (timers w)"
  show "map_of (scheduledDomains (ScheduleDomain d w))
          (timer_domain (timers (ScheduleDomain d w) ! i)) = Some i"
  proof (cases "i < ?n")
    case False
    with i have "i = ?n" by (simp add: ScheduleDomain_result)
    then show ?thesis
      by (simp add: ScheduleDomain_result nth_append update_conv' armed_def)
  next
    case True
    then have nth: "timers (ScheduleDomain d w) ! i = stopped d w ! i"
      by (simp add: ScheduleDomain_result nth_append)
    have notmapped: "map_of (scheduledDomains w) (ID d) \<noteq> Some i"
      using act nth True by (auto simp: stopped_nth)
    then have same: "stopped d w ! i = timers w ! i"
      using True by (simp add: stopped_nth)
    have old: "map_of (scheduledDomains w) (timer_domain (timers w ! i)) = Some i"
      using assms True act nth same by (simp add: sched_inv_def)
    have "timer_domain (timers w ! i) \<noteq> ID d"
      using old notmapped by auto
    then show ?thesis
      using old nth same by (simp add: ScheduleDomain_result update_conv')
  qed
qed

lemma ScheduleDomain_active:
  assumes "sched_inv w"
  shows "active_for (ID d) (ScheduleDomain d w) = [armed d w]"
  using stopped_none_active [OF assms, of d]
  by (simp add: active_for_def ScheduleDomain_result armed_def)

lemma ScheduleDomain_twice:
  "filter timer_active (timers (ScheduleDomain d (ScheduleDomain d w))) =
   filter timer_active (timers (ScheduleDomain d w))"
proof -
  let ?w' = "ScheduleDomain d w"
  have m: "map_of (scheduledDomains ?w') (ID d) = Some (length (timers w))"
    by (simp add: ScheduleDomain_result update_conv')
  have upd: "(stopped d w @ [armed d w])
          [length (stopped d w) :=
             ((stopped d w @ [armed d w]) ! length (stopped d w))\<lparr>timer_active := False\<rparr>] =
        stopped d w @ [(armed d w)\<lparr>timer_active := False\<rparr>]"
    by (simp del: length_stopped)
  have st: "stopped d ?w' = stopped d w @ [(armed d w)\<lparr>timer_active := False\<rparr>]"
    using upd by (simp add: stopped_def [of d ?w'] m) (simp add: ScheduleDomain_result)
  have ar: "armed d ?w' = armed d w"
    by (simp add: armed_def ScheduleDomain_result)
  show ?thesis
    by (subst ScheduleDomain_result [of d ?w'], simp add: st ar)
       (simp add: ScheduleDomain_result armed_def)
qed

lemma NewScheduler_inv: "sched_inv (NewScheduler w)"
  by (simp add: sched_inv_def NewScheduler_def)

lemma max_time_Until:
  "t - now \<le> maxDuration \<Longrightarrow> max 0 (time_Until now t) = max 0 (t - now)"
  by (simp add: time_Until_def time_Sub_def maxDuration_def minDuration_def Let_def)

text \<open>
  C6. In a scheduler state where every active timer is the one the map holds for its
  domain (the invariant \<open>sched_inv\<close>, true of a new scheduler and kept by
  \<open>ScheduleDomain\<close>), \<open>ScheduleDomain d\<close> stops the timer the map holds for \<open>d.ID\<close>, arms
  one new timer, whose delay is \<open>max(0, time.Until(d.NextCheck))\<close> (the exact difference
  \<open>d.NextCheck - now\<close> whenever that fits a duration), and maps the id to it, so that
  exactly one timer is active for the id. A second call right after the first leaves the
  same active timers, one of them for the id.
\<close>

theorem ScheduleDomain_rearms:
  assumes "sched_inv w"
  shows
    "(\<forall>i. map_of (scheduledDomains w) (ID d) = Some i \<and> i < length (timers w) \<longrightarrow>
          \<not> timer_active (timers (ScheduleDomain d w) ! i)) \<and>
     length (timers (ScheduleDomain d w)) = length (timers w) + 1 \<and>
     active_for (ID d) (ScheduleDomain d w) =
       [\<lparr>timer_domain = ID d, timer_delay = max 0 (time_Until (clock w) (NextCheck d)),
         timer_set_at = clock w, timer_active = True\<rparr>] \<and>
     (NextCheck d - clock w \<le> maxDuration \<longrightarrow>
        max 0 (time_Until (clock w) (NextCheck d)) = max 0 (NextCheck d - clock w)) \<and>
     map_of (scheduledDomains (ScheduleDomain d w)) (ID d) = Some (length (timers w)) \<and>
     sched_inv (ScheduleDomain d w) \<and>
     filter timer_active (timers (ScheduleDomain d (ScheduleDomain d w))) =
       filter timer_active (timers (ScheduleDomain d w)) \<and>
     length (active_for (ID d) (ScheduleDomain d (ScheduleDomain d w))) = 1"
proof -
  have stop: "\<not> timer_active (timers (ScheduleDomain d w) ! i)"
    if "map_of (scheduledDomains w) (ID d) = Some i \<and> i < length (timers w)" for i
    using that by (simp add: ScheduleDomain_result nth_append stopped_nth)
  have len: "length (timers (ScheduleDomain d w)) = length (timers w) + 1"
    by (simp add: ScheduleDomain_result)
  have act: "active_for (ID d) (ScheduleDomain d w) =
       [\<lparr>timer_domain = ID d, timer_delay = max 0 (time_Until (clock w) (NextCheck d)),
         timer_set_at = clock w, timer_active = True\<rparr>]"
    using ScheduleDomain_active [OF assms, of d] by (simp add: armed_def)
  have m: "map_of (scheduledDomains (ScheduleDomain d w)) (ID d) = Some (length (timers w))"
    by (simp add: ScheduleDomain_result update_conv')
  have inv: "sched_inv (ScheduleDomain d w)"
    by (rule ScheduleDomain_inv [OF assms])
  have one: "length (active_for (ID d) (ScheduleDomain d (ScheduleDomain d w))) = 1"
    using ScheduleDomain_active [OF inv, of d] by simp
  show ?thesis
    using stop len act m inv one ScheduleDomain_twice [of d w] max_time_Until
    by blast
qed

theorem ScheduleDomain_rearms_witness:
  "sched_inv (ScheduleDomain due_domain fresh_world) \<and>
   map_of (scheduledDomains (ScheduleDomain due_domain fresh_world)) (ID due_domain) = Some 0 \<and>
   \<not> timer_active (timers (ScheduleDomain due_domain (ScheduleDomain due_domain fresh_world)) ! 0) \<and>
   active_for ''d1'' (ScheduleDomain due_domain (ScheduleDomain due_domain fresh_world)) =
     [\<lparr>timer_domain = ''d1'', timer_delay = 3600000000000,
       timer_set_at = 1764806400000000000, timer_active = True\<rparr>] \<and>
   length (timers (ScheduleDomain due_domain (ScheduleDomain due_domain fresh_world))) = 2"
proof -
  have inv0: "sched_inv fresh_world"
    by (simp add: sched_inv_def fresh_world_def)
  have inv1: "sched_inv (ScheduleDomain due_domain fresh_world)"
    by (rule ScheduleDomain_inv [OF inv0])
  have m: "map_of (scheduledDomains (ScheduleDomain due_domain fresh_world)) (ID due_domain) = Some 0"
    by (simp add: ScheduleDomain_result update_conv' fresh_world_def)
  have len: "length (timers (ScheduleDomain due_domain fresh_world)) = 1"
    by (simp add: ScheduleDomain_result fresh_world_def)
  have clk: "clock (ScheduleDomain due_domain fresh_world) = 1764806400000000000"
    by (simp add: ScheduleDomain_result fresh_world_def)
  have dl: "max 0 (time_Until 1764806400000000000 (NextCheck due_domain)) = 3600000000000"
    by (simp add: due_domain_def test_domain_def time_Until_def time_Sub_def maxDuration_def
        minDuration_def Let_def)
  have idd: "ID due_domain = ''d1''"
    by (simp add: due_domain_def test_domain_def)
  show ?thesis
    using ScheduleDomain_rearms [OF inv1, of due_domain] inv1 m len clk dl idd
    by simp
qed

subsection \<open>The tick\<close>

lemma query_attempts_frame [simp]:
  "store (snd (query_attempts s env domainName a b l w)) = store w \<and>
   sched (snd (query_attempts s env domainName a b l w)) = sched w"
proof (induction s env domainName a b l w rule: query_attempts.induct)
  case (1 s env domainName a b l w)
  obtain r w1 where q: "queryWithTimeout s env domainName w = (r, w1)"
    by (cases "queryWithTimeout s env domainName w")
  have fr: "store w1 = store w" "sched w1 = sched w"
    using queryWithTimeout_effect(4,5) [where s = s and env = env and domainName = domainName and w = w] q
    by simp_all
  show ?case
  proof (cases "a < maxRetries s")
    case False
    then show ?thesis
      by (subst query_attempts.simps, simp split: option.splits)+
  next
    case True
    show ?thesis
    proof (cases r)
      case (Inr info)
      with True q fr show ?thesis
        by (subst query_attempts.simps, simp)+
    next
      case (Inl err)
      show ?thesis
      proof (cases "a < wrap64 (maxRetries s - 1)")
        case more: True
        show ?thesis
          using True more q Inl fr "1.IH"(1) [OF True q [symmetric] _ more]
          by (subst query_attempts.simps, simp)+
      next
        case more: False
        show ?thesis
          using True more q Inl fr "1.IH"(2) [OF True q [symmetric] _ more]
          by (subst query_attempts.simps, simp)+
      qed
    qed
  qed
qed

lemma QueryDomain_frame [simp]:
  "store (snd (QueryDomain s env domainName w)) = store w"
  "sched (snd (QueryDomain s env domainName w)) = sched w"
  by (simp_all add: QueryDomain_def)

lemma GetByID_frame [simp]:
  "store (snd (DomainRepository_GetByID env domainID w)) = store w"
  "sched (snd (DomainRepository_GetByID env domainID w)) = sched w"
  by (simp_all add: DomainRepository_GetByID_def db_Get_def db_call_def store_def sched_def
      split: option.splits)

lemma GetByID_found:
  "DomainRepository_GetByID env domainID w = (Inr d, w1) \<Longrightarrow>
     find (\<lambda>r. ID r = domainID) (tbl_domains w) = Some d \<and> ID d = domainID"
  by (auto simp: DomainRepository_GetByID_def db_Get_def db_call_def find_Some_iff
      split: option.splits if_splits)

lemma Update_frame [simp]:
  "sched (snd (snd (DomainRepository_Update env d w))) = sched w"
  "tbl_alerts (snd (snd (DomainRepository_Update env d w))) = tbl_alerts w"
  "tbl_config (snd (snd (DomainRepository_Update env d w))) = tbl_config w"
  "fst (snd (DomainRepository_Update env d w)) = d\<lparr>UpdatedAt := clock w\<rparr>"
  by (simp_all add: DomainRepository_Update_def db_Exec_def db_call_def sched_def Let_def
      split: option.splits)



lemma Create_sched [simp]: "sched (snd (AlertRepository_Create env alert w)) = sched w"
  by (simp add: AlertRepository_Create_def db_Exec_def db_call_def sched_def Let_def
      split: option.splits)

lemma evaluate_thresholds_sched [simp]:
  "sched (snd (evaluate_thresholds env d config remaining thresholds w)) = sched w"
proof (induction thresholds arbitrary: w)
  case Nil
  then show ?case by simp
next
  case (Cons threshold thresholds)
  show ?case
  proof (cases "remaining \<le> threshold \<and> remaining > 0")
    case False
    then show ?thesis using Cons.IH by auto
  next
    case True
    obtain h w1 where h: "HasAlertBeenSent env (ID d) threshold w = (h, w1)"
      by (cases "HasAlertBeenSent env (ID d) threshold w")
    have w1: "sched w1 = sched w"
      using HasAlertBeenSent_frame(2) [of env "ID d" threshold w] h by simp
    obtain sendErr w2 where sa:
      "SendAlert env (new_alert d threshold (clock w1)) (GoogleChatWebhook config) w1 = (sendErr, w2)"
      by (cases "SendAlert env (new_alert d threshold (clock w1)) (GoogleChatWebhook config) w1")
    have w2: "sched w2 = sched w"
      using SendAlert_frame(2) [of env "new_alert d threshold (clock w1)" "GoogleChatWebhook config" w1]
        sa w1 by simp
    obtain r w3 where cr:
      "AlertRepository_Create env (with_outcome sendErr (new_alert d threshold (clock w1))) w2 = (r, w3)"
      by (cases "AlertRepository_Create env (with_outcome sendErr (new_alert d threshold (clock w1))) w2")
    have w3: "sched w3 = sched w"
      using Create_sched [of env "with_outcome sendErr (new_alert d threshold (clock w1))" w2] cr w2
      by simp
    show ?thesis
      unfolding evaluate_thresholds_step [OF True]
      using h w1 sa w2 cr w3 Cons.IH
      by (simp split: sum.splits option.splits)
  qed
qed

lemma EvaluateAlerts_sched [simp]: "sched (snd (EvaluateAlerts env d w)) = sched w"
proof -
  obtain g w1 where g: "ConfigRepository_Get env w = (g, w1)"
    by (cases "ConfigRepository_Get env w")
  have "sched w1 = sched w"
    using ConfigRepository_Get_frame(3) [of env w] g by simp
  then show ?thesis
    using g by (simp add: EvaluateAlerts_def split: sum.splits)
qed

text \<open>
  When the tick runs, the context is not cancelled and the domain is read, every path of
  the tick ends in \<open>reschedule\<close>: a failed configuration read, a failed update and a
  failed alert evaluation all leave one active timer for the domain.
\<close>

lemma reschedule_active:
  "sched_inv w \<Longrightarrow> \<not> cancelled w \<Longrightarrow> length (active_for (ID d) (reschedule d w)) = 1"
  using ScheduleDomain_active [of w d] by (simp add: reschedule_def)

lemma sched_inv_cong: "sched w' = sched w \<Longrightarrow> sched_inv w' = sched_inv w"
  by (simp add: sched_inv_def sched_def)

lemma checkDomain_reschedules:
  assumes inv: "sched_inv w" and run: "\<not> cancelled w"
    and get: "DomainRepository_GetByID env domainID w = (Inr d, w1)"
  shows "length (active_for domainID (checkDomain whoisSvc env domainID w)) = 1"
proof -
  have idd: "ID d = domainID"
    using GetByID_found [OF get] by simp
  have s1: "sched w1 = sched w"
    using GetByID_frame(2) [of env domainID w] get by simp
  obtain g w2 where g: "ConfigRepository_Get env w1 = (g, w2)"
    by (cases "ConfigRepository_Get env w1")
  have s2: "sched w2 = sched w"
    using ConfigRepository_Get_frame(3) [of env w1] g s1 by simp
  have ok: "length (active_for domainID (reschedule d' v)) = 1"
    if "sched v = sched w" "ID d' = domainID" for d' v
    using reschedule_active [of v d'] that inv run sched_inv_cong [of v w]
    by (simp add: sched_def)
  show ?thesis
  proof (cases g)
    case (Inl err)
    then show ?thesis
      using run get g ok [OF s2 idd] by (simp add: checkDomain_def)
  next
    case (Inr config)
    obtain q w3 where q: "QueryDomain whoisSvc env (Name d) w2 = (q, w3)"
      by (cases "QueryDomain whoisSvc env (Name d) w2")
    have s3: "sched w3 = sched w"
      using QueryDomain_frame(2) [of whoisSvc env "Name d" w2] q s2 by simp
    have tail: "length (active_for domainID
        (case DomainRepository_Update env d1 w3 of
           (Some err, d2, w4) \<Rightarrow> reschedule d2 w4
         | (None, d2, w4) \<Rightarrow>
             (case EvaluateAlerts env d2 w4 of (alertErr, w5) \<Rightarrow> reschedule d2 w5))) = 1"
      if "ID d1 = domainID" for d1
    proof -
      obtain u d2 w4 where u: "DomainRepository_Update env d1 w3 = (u, d2, w4)"
        by (cases "DomainRepository_Update env d1 w3") auto
      have s4: "sched w4 = sched w" and d2: "ID d2 = domainID"
        using Update_frame(1,4) [of env d1 w3] u s3 that by simp_all
      obtain e w5 where e: "EvaluateAlerts env d2 w4 = (e, w5)"
        by (cases "EvaluateAlerts env d2 w4")
      have s5: "sched w5 = sched w"
        using EvaluateAlerts_sched [of env d2 w4] e s4 by simp
      show ?thesis
        using u e ok [OF s4 d2] ok [OF s5 d2] by (simp split: option.splits)
    qed
    show ?thesis
      using run get g Inr q tail idd
      by (simp add: checkDomain_def Let_def split: sum.splits)
  qed
qed

lemma scheduled_fresh:
  "ScheduleDomain test_domain fresh_world =
     fresh_world\<lparr>timers := [\<lparr>timer_domain = ''d1'', timer_delay = 0,
                               timer_set_at = 1764806400000000000, timer_active = True\<rparr>],
                  scheduledDomains := [(''d1'', 0)]\<rparr>"
  by (simp add: ScheduleDomain_def time_AfterFunc_def fresh_world_def test_domain_def Let_def)

text \<open>
  C2. The same is expected of a failed re-read of the domain when the domain still
  exists, but the tick returns on any error of \<open>GetByID\<close>. On the sample state, whose
  only timer has fired, a driver error on the first round trip (the domain read) leaves
  the domain row in the table, the context not cancelled and no active timer at all: the
  domain is never checked again. A driver error on the second round trip (the
  configuration read) leaves one active timer for the domain.
\<close>

theorem checkDomain_read_error_ends_monitoring:
  "map_option tbl_domains
     (fire NewService (faulty_env 0) 0 (ScheduleDomain test_domain fresh_world)) =
     Some [test_domain] \<and>
   map_option cancelled
     (fire NewService (faulty_env 0) 0 (ScheduleDomain test_domain fresh_world)) = Some False \<and>
   map_option (\<lambda>w. map timer_active (timers w))
     (fire NewService (faulty_env 0) 0 (ScheduleDomain test_domain fresh_world)) = Some [False] \<and>
   map_option (active_for ''d1'')
     (fire NewService (faulty_env 0) 0 (ScheduleDomain test_domain fresh_world)) = Some [] \<and>
   map_option (\<lambda>w. length (active_for ''d1'' w))
     (fire NewService (faulty_env 1) 0 (ScheduleDomain test_domain fresh_world)) = Some 1"
proof -
  have f0: "fire NewService (faulty_env 0) 0 (ScheduleDomain test_domain fresh_world) =
      Some (fresh_world\<lparr>ops := 1,
              timers := [\<lparr>timer_domain = ''d1'', timer_delay = 0,
                          timer_set_at = 1764806400000000000, timer_active = False\<rparr>],
              scheduledDomains := [(''d1'', 0)]\<rparr>)"
    unfolding scheduled_fresh
    by (simp add: fire_def timer_Stop_def checkDomain_def DomainRepository_GetByID_def db_Get_def
        db_call_def faulty_env_def quiet_env_def fresh_world_def Let_def)
  have f1: "map_option (\<lambda>w. length (active_for ''d1'' w))
     (fire NewService (faulty_env 1) 0 (ScheduleDomain test_domain fresh_world)) = Some 1"
    unfolding scheduled_fresh
    by (simp add: fire_def timer_Stop_def checkDomain_def DomainRepository_GetByID_def db_Get_def
        db_call_def ConfigRepository_Get_def reschedule_def ScheduleDomain_def time_AfterFunc_def
        active_for_def faulty_env_def quiet_env_def fresh_world_def test_domain_def Let_def)
  show ?thesis
    unfolding f0 using f1
    by (simp add: active_for_def fresh_world_def)
qed

subsection \<open>A tick whose lookup fails\<close>















section \<open>Validation of configuration updates\<close>

lemma scan_decimal_samples:
  "scan_decimal ''0'' = Some 0" "scan_decimal ''2'' = Some 2"
  "scan_decimal ''2562048'' = Some 2562048" "scan_decimal ''106752'' = Some 106752"
  by code_simp+

lemma configured_get:
  "ConfigRepository_Get form_env configured_world = (Inr default_config, configured_world\<lparr>ops := 1\<rparr>)"
  by (simp add: ConfigRepository_Get_def db_Get_def db_call_def form_env_def quiet_env_def
      configured_world_def fresh_world_def)

lemma wrapped_hours: "wrap64 (2562048 * Hour) = - 9223371273709551616"
  "wrap64 (wrap64 (106752 * 24) * Hour) = - 9223371273709551616" "wrap64 (2 * Hour) = 2 * Hour"
  "wrap64 (wrap64 2562048 * Hour) = - 9223371273709551616"
  by (simp_all add: wrap64_def Hour_def)

lemmas form_defs =
  handleUpdateConfig_def update_interval_def update_webhook_def update_retention_def
  update_thresholds_def interval_form_def retention_form_def thresholds_form_def blank_form_def
  HasPrefix_def

lemma form_env_fields: "Sscanf_d form_env = scan_decimal" "TrimSpace form_env s = s"
  "db_fault form_env n = None"
  by (simp_all add: form_env_def quiet_env_def)

lemma configured_update:
  "ConfigRepository_Update form_env c (configured_world\<lparr>ops := Suc 0\<rparr>) =
     (None, configured_world\<lparr>ops := 3,
        tbl_config := Some (default_config\<lparr>MonitoringInterval := MonitoringInterval c,
                                AlertThresholds := AlertThresholds c,
                                GoogleChatWebhook := GoogleChatWebhook c,
                                RetentionPeriod := RetentionPeriod c,
                                ConfigUpdatedAt := clock configured_world\<rparr>)\<rparr>)"
  by (simp add: ConfigRepository_Update_def db_Exec_def db_call_def form_env_fields
      configured_world_def fresh_world_def Let_def)

lemma rejected_zero:
  "handleUpdateConfig form_env (Inr (interval_form ''0'')) configured_world =
     (ErrorPage 400 ''Monitoring interval must be at least 1 hour'' None, configured_world\<lparr>ops := 1\<rparr>)"
  by (simp add: form_defs configured_get form_env_fields scan_decimal_samples)

lemma accepted_two:
  "handleUpdateConfig form_env (Inr (interval_form ''2'')) configured_world =
     (Redirect ''/config'' 303,
      configured_world\<lparr>ops := 3,
        tbl_config := Some (default_config\<lparr>MonitoringInterval := 2 * Hour,
                                ConfigUpdatedAt := clock configured_world\<rparr>)\<rparr>)"
  by (simp add: form_defs configured_get form_env_fields scan_decimal_samples configured_update
      wrapped_hours SetMonitoringInterval_def Let_def default_config_def)

lemma accepted_wrapped_interval:
  "handleUpdateConfig form_env (Inr (interval_form ''2562048'')) configured_world =
     (Redirect ''/config'' 303,
      configured_world\<lparr>ops := 3,
        tbl_config := Some (default_config\<lparr>MonitoringInterval := - 9223371273709551616,
                                ConfigUpdatedAt := clock configured_world\<rparr>)\<rparr>)"
  by (simp add: form_defs configured_get form_env_fields scan_decimal_samples configured_update
      wrapped_hours SetMonitoringInterval_def Let_def default_config_def)

lemma accepted_wrapped_retention:
  "handleUpdateConfig form_env (Inr (retention_form ''106752'')) configured_world =
     (Redirect ''/config'' 303,
      configured_world\<lparr>ops := 3,
        tbl_config := Some (default_config\<lparr>RetentionPeriod := - 9223371273709551616,
                                ConfigUpdatedAt := clock configured_world\<rparr>)\<rparr>)"
  by (simp add: form_defs configured_get form_env_fields scan_decimal_samples configured_update
      wrapped_hours SetRetentionPeriod_def Let_def default_config_def)

lemma accepted_wrapped_threshold:
  "handleUpdateConfig form_env (Inr (thresholds_form ''106752'')) configured_world =
     (Redirect ''/config'' 303,
      configured_world\<lparr>ops := 3,
        tbl_config := Some (default_config\<lparr>AlertThresholds := [- 9223371273709551616],
                                ConfigUpdatedAt := clock configured_world\<rparr>)\<rparr>)"
  by (simp add: form_defs configured_get form_env_fields scan_decimal_samples configured_update
      wrapped_hours SetAlertThresholds_def Let_def default_config_def)


text \<open>
  Claim C7. A configuration update with a monitoring interval under one hour, an alert
  threshold that is not positive, a retention period under one day or a webhook that is
  not HTTPS is to be refused and never stored; an interval of two hours is accepted and
  read back. The handler compares the integer it scanned (\<open>hours < 1\<close>, \<open>days < 1\<close>,
  \<open>days <= 0\<close>) and only then multiplies it by \<open>time.Hour\<close> in 64 bits. An interval of
  2562048 hours passes the comparison and its product wraps: the request is answered with
  the redirect and the interval stored is -9223371273709551616 nanoseconds, under one
  hour. A retention period or a threshold of 106752 days is stored as the same negative
  duration. An interval of 0 hours is refused with status 400 and the stored row stays as
  it was; an interval of 2 hours is stored and read back as two hours.
\<close>

theorem handleUpdateConfig_stores_wrapped_durations:
  "Sscanf_d form_env ''2562048'' = Some 2562048 \<and>
   fst (handleUpdateConfig form_env (Inr (interval_form ''2562048'')) configured_world) =
     Redirect ''/config'' 303 \<and>
   map_option GetMonitoringInterval
     (tbl_config (snd (handleUpdateConfig form_env (Inr (interval_form ''2562048''))
        configured_world))) = Some (- 9223371273709551616) \<and>
   Sscanf_d form_env ''106752'' = Some 106752 \<and>
   fst (handleUpdateConfig form_env (Inr (retention_form ''106752'')) configured_world) =
     Redirect ''/config'' 303 \<and>
   map_option GetRetentionPeriod
     (tbl_config (snd (handleUpdateConfig form_env (Inr (retention_form ''106752''))
        configured_world))) = Some (- 9223371273709551616) \<and>
   fst (handleUpdateConfig form_env (Inr (thresholds_form ''106752'')) configured_world) =
     Redirect ''/config'' 303 \<and>
   map_option GetAlertThresholds
     (tbl_config (snd (handleUpdateConfig form_env (Inr (thresholds_form ''106752''))
        configured_world))) = Some [- 9223371273709551616] \<and>
   fst (handleUpdateConfig form_env (Inr (interval_form ''0'')) configured_world) =
     ErrorPage 400 ''Monitoring interval must be at least 1 hour'' None \<and>
   tbl_config (snd (handleUpdateConfig form_env (Inr (interval_form ''0'')) configured_world)) =
     tbl_config configured_world \<and>
   fst (handleUpdateConfig form_env (Inr (interval_form ''2'')) configured_world) =
     Redirect ''/config'' 303 \<and>
   map_sum Error GetMonitoringInterval
     (fst (ConfigRepository_Get form_env
        (snd (handleUpdateConfig form_env (Inr (interval_form ''2'')) configured_world)))) =
     Inr (2 * Hour)"
  unfolding accepted_wrapped_interval accepted_wrapped_retention accepted_wrapped_threshold
    rejected_zero accepted_two
  by (simp add: form_env_fields scan_decimal_samples GetMonitoringInterval_def
      GetRetentionPeriod_def GetAlertThresholds_def ConfigRepository_Get_def db_Get_def
      db_call_def)

section \<open>The alert message\<close>

lemma guide_alert_fields:
  "DaysUntilExpiration guide_alert = 25"
  "Format_2006_01_02 (AlertExpirationDate guide_alert) = ''2025-12-29''"
  "f64_to_int (f64_div (Hours (GetThreshold guide_alert)) (f64_of_int 24)) = 30"
  "Itoa 25 = ''25''"
  by code_simp+

text \<open>
  Claim C8. The formatted webhook message is the bell, the title \<open>Domain Expiration Alert\<close>,
  the domain name, the expiration date as YYYY-MM-DD, the days remaining (the hours from the
  sending time to the expiration, divided by 24 and truncated) and the threshold in whole
  days. \<open>FormatAlertMessage\<close> produces every part of that text but the bell: its message
  begins with the ten bytes C3 B0 C5 B8 E2 80 9D E2 80 9D, the four bytes of the bell read
  as Windows-1252 and encoded again, so for no alert is the message the documented one. For
  the alert of the testing guide the message is computed in full.
\<close>

theorem FormatAlertMessage_garbled_bell:
  "FormatAlertMessage alert \<noteq> documented_message alert \<and>
   drop 10 (FormatAlertMessage alert) = drop 4 (documented_message alert) \<and>
   FormatAlertMessage guide_alert =
     [CHR 0xC3, CHR 0xB0, CHR 0xC5, CHR 0xB8, CHR 0xE2, CHR 0x80, CHR 0x9D, CHR 0xE2, CHR 0x80,
      CHR 0x9D]
     @ '' Domain Expiration Alert'' @ [CHR 0x0A, CHR 0x0A]
     @ ''Domain: test-alert-domain.com'' @ [CHR 0x0A]
     @ ''Expiration Date: 2025-12-29'' @ [CHR 0x0A]
     @ ''Days Remaining: 25'' @ [CHR 0x0A]
     @ ''Alert Threshold: 30 days'' @ [CHR 0x0A, CHR 0x0A]
     @ ''Please renew this domain to avoid service disruption.''"
proof -
  have "FormatAlertMessage alert \<noteq> documented_message alert"
    by (simp add: FormatAlertMessage_def documented_message_def bell_def Let_def)
  moreover have "drop 10 (FormatAlertMessage alert) = drop 4 (documented_message alert)"
    by (simp add: FormatAlertMessage_def documented_message_def bell_def Let_def)
  moreover have "FormatAlertMessage guide_alert =
     [CHR 0xC3, CHR 0xB0, CHR 0xC5, CHR 0xB8, CHR 0xE2, CHR 0x80, CHR 0x9D, CHR 0xE2, CHR 0x80,
      CHR 0x9D]
     @ '' Domain Expiration Alert'' @ [CHR 0x0A, CHR 0x0A]
     @ ''Domain: test-alert-domain.com'' @ [CHR 0x0A]
     @ ''Expiration Date: 2025-12-29'' @ [CHR 0x0A]
     @ ''Days Remaining: 25'' @ [CHR 0x0A]
     @ ''Alert Threshold: 30 days'' @ [CHR 0x0A, CHR 0x0A]
     @ ''Please renew this domain to avoid service disruption.''"
    by (simp add: FormatAlertMessage_def Let_def guide_alert_fields Itoa_30)
       (simp add: guide_alert_def)
  ultimately show ?thesis by blast
qed

end
